theory Spec2Isabelle
  imports Complex_Main
begin

section \<open>JavaScript values used by the script\<close>

text \<open>
  The script \<^verbatim>\<open>convert.js\<close> (sequential variant with logging; the English-language copy
  is the one embedded here, the Russian-language copy has the same control flow, Russian
  message texts and three of the five presets) only handles numbers, strings and
  \<^verbatim>\<open>undefined\<close> in the places the properties below talk about. An older variant of the
  script, which starts all conversions at once, collects them with \<^verbatim>\<open>Promise.allSettled\<close> and
  writes to the console only, is not embedded.

  A JavaScript number is modelled as an exact rational or one of the three special IEEE
  values. Rounding of binary floating point and the sign of zero are not modelled: the
  arithmetic on finite values is exact.
\<close>

datatype jsnum = Finite rat | PosInfinity | NegInfinity | NaN

datatype jsval = Undefined | Num jsnum | Str string

text \<open>Truthiness (\<^verbatim>\<open>ToBoolean\<close>): \<^verbatim>\<open>undefined\<close>, \<^verbatim>\<open>0\<close>, \<^verbatim>\<open>NaN\<close> and \<^verbatim>\<open>''\<close> are falsy.\<close>

fun truthy :: "jsval \<Rightarrow> bool" where
  "truthy Undefined = False"
| "truthy (Num (Finite q)) = (q \<noteq> 0)"
| "truthy (Num NaN) = False"
| "truthy (Num PosInfinity) = True"
| "truthy (Num NegInfinity) = True"
| "truthy (Str s) = (s \<noteq> [])"

text \<open>The operator \<^verbatim>\<open>a || b\<close>.\<close>

definition js_or :: "jsval \<Rightarrow> jsval \<Rightarrow> jsval" where
  "js_or a b = (if truthy a then a else b)"

subsection \<open>Decimal digits\<close>

definition digit_char :: "nat \<Rightarrow> char" where
  "digit_char d = ''0123456789'' ! (d mod 10)"

fun string_of_nat :: "nat \<Rightarrow> string" where
  "string_of_nat n =
     (if n < 10 then [digit_char n] else string_of_nat (n div 10) @ [digit_char (n mod 10)])"

declare string_of_nat.simps [simp del]

definition is_digit :: "char \<Rightarrow> bool" where
  "is_digit c = (c \<in> set ''0123456789'')"

definition digit_val :: "char \<Rightarrow> nat" where
  "digit_val c = of_char c - 48"

text \<open>Value of a string of decimal digits, most significant digit first.\<close>

definition nat_of_digits :: "string \<Rightarrow> nat" where
  "nat_of_digits ds = foldl (\<lambda>acc c. 10 * acc + digit_val c) 0 ds"

subsection \<open>Conversions between numbers and strings\<close>

text \<open>
  \<^verbatim>\<open>ToNumber\<close>. On strings only the empty string (which is \<^verbatim>\<open>0\<close>) and plain strings of
  decimal digits are recognised as numeric; every other string converts to \<^verbatim>\<open>NaN\<close>
  (signs, fractions, exponents, hexadecimal literals and surrounding white space are not
  modelled).
\<close>

fun ToNumber :: "jsval \<Rightarrow> jsnum" where
  "ToNumber Undefined = NaN"
| "ToNumber (Num n) = n"
| "ToNumber (Str s) =
     (if s = [] then Finite 0
      else if list_all is_digit s then Finite (of_nat (nat_of_digits s))
      else NaN)"

text \<open>The global \<^verbatim>\<open>isNaN(v)\<close>: converts with \<^verbatim>\<open>ToNumber\<close> first.\<close>

definition isNaN :: "jsval \<Rightarrow> bool" where
  "isNaN v = (ToNumber v = NaN)"

text \<open>
  \<^verbatim>\<open>Number.prototype.toFixed(d)\<close>: the sign is taken first, then the magnitude is rounded
  to \<open>d\<close> decimals with ties going up, and printed with exactly \<open>d\<close> decimals. The value
  rounded here is the exact rational; JavaScript rounds the binary double, so a decimal
  that sits on a tie, or whose double is not the exact quotient, can come out one unit in
  the last place lower there (\<^verbatim>\<open>(1.005).toFixed(2)\<close> is \<^verbatim>\<open>1.00\<close>). (For magnitudes of
  \<open>10\<^sup>2\<^sup>1\<close> and more JavaScript switches to exponent notation; not modelled.)
\<close>

definition fixed_digits :: "nat \<Rightarrow> rat \<Rightarrow> string" where
  "fixed_digits d q =
     (let n = nat \<lfloor>q * 10 ^ d + 1 / 2\<rfloor>;
          ip = string_of_nat (n div 10 ^ d);
          fp = string_of_nat (n mod 10 ^ d)
      in if d = 0 then ip
         else ip @ ''.'' @ replicate (d - length fp) (CHR ''0'') @ fp)"

fun toFixed :: "nat \<Rightarrow> jsnum \<Rightarrow> string" where
  "toFixed d NaN = ''NaN''"
| "toFixed d PosInfinity = ''Infinity''"
| "toFixed d NegInfinity = ''-Infinity''"
| "toFixed d (Finite q) = (if q < 0 then ''-'' @ fixed_digits d (- q) else fixed_digits d q)"

text \<open>
  \<^verbatim>\<open>parseFloat\<close> on the strings \<^verbatim>\<open>toFixed\<close> produces: an optional minus sign, then
  \<^verbatim>\<open>Infinity\<close> or decimal digits with an optional fraction; anything else is \<^verbatim>\<open>NaN\<close>.
\<close>

definition parse_unsigned :: "string \<Rightarrow> jsnum" where
  "parse_unsigned s =
     (if take 8 s = ''Infinity'' then PosInfinity
      else
        let ip = takeWhile is_digit s; rest = dropWhile is_digit s;
            fp = (case rest of c # r \<Rightarrow> if c = CHR ''.'' then takeWhile is_digit r else [] | [] \<Rightarrow> [])
        in if ip = [] \<and> fp = [] then NaN
           else Finite (of_nat (nat_of_digits ip)
                        + of_nat (nat_of_digits fp) / 10 ^ length fp))"

fun js_neg :: "jsnum \<Rightarrow> jsnum" where
  "js_neg (Finite q) = Finite (- q)"
| "js_neg PosInfinity = NegInfinity"
| "js_neg NegInfinity = PosInfinity"
| "js_neg NaN = NaN"

definition parseFloat :: "string \<Rightarrow> jsnum" where
  "parseFloat s =
     (case s of c # r \<Rightarrow> if c = CHR ''-'' then js_neg (parse_unsigned r) else parse_unsigned s
      | [] \<Rightarrow> NaN)"

text \<open>
  \<^verbatim>\<open>Number::toString\<close>, as used when a number is concatenated to a string. Finite values
  are printed with their integer part and at most two decimals, trailing zeros dropped;
  this is exact for the values the script converts (array lengths, counters, and results
  of \<^verbatim>\<open>parseFloat\<close> on a \<^verbatim>\<open>toFixed(2)\<close> string).
\<close>

definition strip_zeros :: "string \<Rightarrow> string" where
  "strip_zeros s = rev (dropWhile (\<lambda>c. c = CHR ''0'') (rev s))"

definition unsigned_to_string :: "rat \<Rightarrow> string" where
  "unsigned_to_string q =
     (let n = nat \<lfloor>q * 100\<rfloor>;
          ip = string_of_nat (n div 100);
          f = string_of_nat (n mod 100);
          fp = strip_zeros (replicate (2 - length f) (CHR ''0'') @ f)
      in if fp = [] then ip else ip @ ''.'' @ fp)"

fun numToString :: "jsnum \<Rightarrow> string" where
  "numToString NaN = ''NaN''"
| "numToString PosInfinity = ''Infinity''"
| "numToString NegInfinity = ''-Infinity''"
| "numToString (Finite q) =
     (if q < 0 then ''-'' @ unsigned_to_string (- q) else unsigned_to_string q)"

text \<open>
  \<^verbatim>\<open>parseInt(v)\<close>: the integer part of a finite number (truncated towards zero), the
  value of the leading decimal digits of a string, \<^verbatim>\<open>NaN\<close> otherwise. (\<^verbatim>\<open>parseInt\<close> reads the
  decimal text of a number; for magnitudes below \<open>10\<^sup>-\<^sup>6\<close> or from \<open>10\<^sup>2\<^sup>1\<close> on that text
  is in exponent notation, which is not modelled.)
\<close>

fun parseInt :: "jsval \<Rightarrow> jsnum" where
  "parseInt Undefined = NaN"
| "parseInt (Num (Finite q)) = Finite (of_int (if q < 0 then - \<lfloor>- q\<rfloor> else \<lfloor>q\<rfloor>))"
| "parseInt (Num n) = NaN"
| "parseInt (Str s) =
     (let ds = takeWhile is_digit s
      in if ds = [] then NaN else Finite (of_nat (nat_of_digits ds)))"

subsection \<open>Arithmetic with the special values\<close>

fun js_sub :: "jsnum \<Rightarrow> jsnum \<Rightarrow> jsnum" where
  "js_sub (Finite a) (Finite b) = Finite (a - b)"
| "js_sub NaN y = NaN"
| "js_sub x NaN = NaN"
| "js_sub PosInfinity PosInfinity = NaN"
| "js_sub NegInfinity NegInfinity = NaN"
| "js_sub PosInfinity y = PosInfinity"
| "js_sub NegInfinity y = NegInfinity"
| "js_sub (Finite a) PosInfinity = NegInfinity"
| "js_sub (Finite a) NegInfinity = PosInfinity"

text \<open>Division: a finite non-zero value divided by zero is an infinity, zero by zero is \<^verbatim>\<open>NaN\<close>;
  no exception is ever raised.\<close>

fun js_div :: "jsnum \<Rightarrow> jsnum \<Rightarrow> jsnum" where
  "js_div (Finite a) (Finite b) =
     (if b \<noteq> 0 then Finite (a / b)
      else if a = 0 then NaN else if 0 < a then PosInfinity else NegInfinity)"
| "js_div NaN y = NaN"
| "js_div x NaN = NaN"
| "js_div (Finite a) y = Finite 0"
| "js_div PosInfinity (Finite b) = (if 0 \<le> b then PosInfinity else NegInfinity)"
| "js_div NegInfinity (Finite b) = (if 0 \<le> b then NegInfinity else PosInfinity)"
| "js_div x y = NaN"

fun js_mul :: "jsnum \<Rightarrow> jsnum \<Rightarrow> jsnum" where
  "js_mul (Finite a) (Finite b) = Finite (a * b)"
| "js_mul NaN y = NaN"
| "js_mul x NaN = NaN"
| "js_mul (Finite a) y =
     (if a = 0 then NaN else if 0 < a then y else js_neg y)"
| "js_mul x (Finite b) =
     (if b = 0 then NaN else if 0 < b then x else js_neg x)"
| "js_mul x y = (if x = y then PosInfinity else NegInfinity)"


text \<open>
  \<^verbatim>\<open>Math.floor(Math.log(x) / Math.log(k))\<close> for an integer \<open>k \<ge> 2\<close>, computed exactly: the
  largest integer \<open>i\<close> with \<open>k\<^sup>i \<le> x\<close>. (In floating point the quotient of the two
  logarithms can miss an integer by one unit in the last place when \<open>x\<close> is at or next to
  an exact power of \<open>k\<close>; that rounding is not modelled.)
\<close>

function ilog :: "nat \<Rightarrow> nat \<Rightarrow> nat" where
  "ilog k n = (if k < 2 \<or> n < k then 0 else Suc (ilog k (n div k)))"
  by pat_completeness auto
termination
  by (relation "measure snd") auto

declare ilog.simps [simp del]

fun floor_log :: "nat \<Rightarrow> jsnum \<Rightarrow> jsnum" where
  "floor_log k NaN = NaN"
| "floor_log k NegInfinity = NaN"
| "floor_log k PosInfinity = PosInfinity"
| "floor_log k (Finite q) =
     (if q < 0 then NaN
      else if q = 0 then NegInfinity
      else if 1 \<le> q then Finite (of_nat (ilog k (nat \<lfloor>q\<rfloor>)))
      else Finite (- of_nat (Suc (ilog k (nat \<lceil>1 / q\<rceil> - 1)))))"

text \<open>\<^verbatim>\<open>Math.pow(k, i)\<close> for \<open>k > 1\<close> and an exponent that is an integer or a special value.\<close>

fun js_pow :: "rat \<Rightarrow> jsnum \<Rightarrow> jsnum" where
  "js_pow k NaN = NaN"
| "js_pow k PosInfinity = PosInfinity"
| "js_pow k NegInfinity = Finite 0"
| "js_pow k (Finite e) = Finite (if 0 \<le> e then k ^ nat \<lfloor>e\<rfloor> else 1 / k ^ nat \<lfloor>- e\<rfloor>)"

text \<open>Array indexing \<^verbatim>\<open>xs[i]\<close>: \<^verbatim>\<open>undefined\<close> (here \<open>None\<close>) unless \<open>i\<close> is an index of \<open>xs\<close>.\<close>

fun index_at :: "'a list \<Rightarrow> jsnum \<Rightarrow> 'a option" where
  "index_at xs (Finite q) =
     (if 0 \<le> q \<and> q = of_int \<lfloor>q\<rfloor> \<and> nat \<lfloor>q\<rfloor> < length xs then Some (xs ! nat \<lfloor>q\<rfloor>) else None)"
| "index_at xs n = None"

text \<open>A possibly undefined string inside a template literal or a string concatenation.\<close>

fun tmpl :: "string option \<Rightarrow> string" where
  "tmpl None = ''undefined''"
| "tmpl (Some s) = s"

section \<open>Formatter utilities\<close>

text \<open>
  \<^verbatim>\<open>
  function formatBytes(bytes) {
    if (bytes === 0 || !bytes) return '0 Bytes';
    const k = 1024;
    const sizes = ['Bytes', 'KB', 'MB', 'GB', 'TB'];
    const i = Math.floor(Math.log(bytes) / Math.log(k));
    return parseFloat((bytes / Math.pow(k, i)).toFixed(2)) + ' ' + sizes[i];
  }\<close>
\<close>

definition sizes :: "string list" where
  "sizes = [''Bytes'', ''KB'', ''MB'', ''GB'', ''TB'']"

definition formatBytes :: "jsval \<Rightarrow> string" where
  "formatBytes bytes =
     (if bytes = Num (Finite 0) \<or> \<not> truthy bytes then ''0 Bytes''
      else
        let i = floor_log 1024 (ToNumber bytes)
        in numToString (parseFloat (toFixed 2 (js_div (ToNumber bytes) (js_pow 1024 i))))
           @ '' '' @ tmpl (index_at sizes i))"

text \<open>
  \<^verbatim>\<open>
  function formatBitrate(bitrate) {
    if (!bitrate || bitrate === 'N/A' || isNaN(bitrate)) return 'N/A';
    return (parseInt(bitrate) / 1000).toFixed(0) + ' kb/s';
  }\<close>
\<close>

definition formatBitrate :: "jsval \<Rightarrow> string" where
  "formatBitrate bitrate =
     (if \<not> truthy bitrate \<or> bitrate = Str ''N/A'' \<or> isNaN bitrate then ''N/A''
      else toFixed 0 (js_div (parseInt bitrate) (Finite 1000)) @ '' kb/s'')"

section \<open>File names\<close>

text \<open>
  \<^verbatim>\<open>path.extname\<close> and \<^verbatim>\<open>path.parse(...).name\<close> of Node, on the names a directory listing
  returns (a single path component, without separator). Scanning from the end, Node finds
  the last dot (\<^verbatim>\<open>startDot\<close>); there is no extension when there is no dot, when the last
  dot is the first character, or when the name is \<^verbatim>\<open>..\<close>.
\<close>

definition startDot :: "string \<Rightarrow> nat option" where
  "startDot p =
     (if CHR ''.'' \<in> set p
      then Some (length p - Suc (length (takeWhile (\<lambda>c. c \<noteq> CHR ''.'') (rev p))))
      else None)"

definition extname :: "string \<Rightarrow> string" where
  "extname p =
     (case startDot p of
        None \<Rightarrow> []
      | Some d \<Rightarrow> if d = 0 \<or> p = ''..'' then [] else drop d p)"

definition parse_name :: "string \<Rightarrow> string" where
  "parse_name p =
     (case startDot p of
        None \<Rightarrow> p
      | Some d \<Rightarrow> if d = 0 \<or> p = ''..'' then p else take d p)"

text \<open>\<^verbatim>\<open>path.join(dir, name)\<close> on POSIX, for a normalised directory and a plain name.\<close>

definition path_join :: "string \<Rightarrow> string \<Rightarrow> string" where
  "path_join dir name = dir @ ''/'' @ name"

text \<open>
  \<^verbatim>\<open>String.prototype.toLowerCase\<close>, on ASCII letters; other bytes are left as they are.
  (JavaScript also lowers letters outside ASCII, for instance the Kelvin sign U+212A to
  \<^verbatim>\<open>k\<close>; names with such letters are outside this model.)
\<close>

definition lower_char :: "char \<Rightarrow> char" where
  "lower_char c =
     (let n = (of_char c :: nat) in if 65 \<le> n \<and> n \<le> 90 then char_of (n + 32) else c)"

definition toLowerCase :: "string \<Rightarrow> string" where
  "toLowerCase s = map lower_char s"

definition VIDEO_EXTENSIONS :: "string list" where
  "VIDEO_EXTENSIONS = [''.mp4'', ''.mkv'', ''.avi'', ''.mov'', ''.flv'', ''.wmv'']"

text \<open>The filter predicate \<^verbatim>\<open>VIDEO_EXTENSIONS.includes(path.extname(file).toLowerCase())\<close>.\<close>

definition is_video :: "string \<Rightarrow> bool" where
  "is_video file = (toLowerCase (extname file) \<in> set VIDEO_EXTENSIONS)"

text \<open>\<^verbatim>\<open>Array.prototype.join\<close> on an array of strings.\<close>

fun join :: "string \<Rightarrow> string list \<Rightarrow> string" where
  "join sep [] = []"
| "join sep [x] = x"
| "join sep (x # y # ys) = x @ sep @ join sep (y # ys)"


section \<open>Preset registry\<close>

text \<open>
  A preset object is only ever read through \<^verbatim>\<open>.cli\<close> and \<^verbatim>\<open>.outputExtension\<close>; a field is
  \<open>None\<close> when reading it gives \<^verbatim>\<open>undefined\<close>.
\<close>

record preset =
  cli :: "string list option"
  outputExtension :: "string option"

definition PRESETS :: "(string \<times> preset) list" where
  "PRESETS =
     [(''conv0_5'',
        \<lparr>cli = Some [''-vf'', ''scale=iw*0.5:ih*0.5'', ''-c:v'', ''libx264'', ''-crf'', ''28'',
                     ''-c:a'', ''aac'', ''-b:a'', ''128k''],
         outputExtension = Some ''.mp4''\<rparr>),
      (''conv0_25s'',
        \<lparr>cli = Some [''-vf'', ''scale=iw*0.25:ih*0.25'', ''-c:v'', ''libxvid'', ''-q:v'', ''5'',
                     ''-c:a'', ''libmp3lame'', ''-b:a'', ''128k''],
         outputExtension = Some ''.avi''\<rparr>),
      (''conv256s'',
        \<lparr>cli = Some [''-vf'', ''scale=-2:256'', ''-af'', ''volume=2.0'', ''-c:v'', ''libxvid'',
                     ''-q:v'', ''5'', ''-c:a'', ''libmp3lame'', ''-b:a'', ''192k''],
         outputExtension = Some ''.avi''\<rparr>),
      (''web_h264'',
        \<lparr>cli = Some [''-c:v'', ''libx264'', ''-crf'', ''23'', ''-preset'', ''medium'',
                     ''-c:a'', ''aac'', ''-b:a'', ''160k'', ''-movflags'', ''+faststart''],
         outputExtension = Some ''.mp4''\<rparr>),
      (''extract_audio'',
        \<lparr>cli = Some [''-vn'', ''-c:a'', ''libmp3lame'', ''-q:a'', ''2''],
         outputExtension = Some ''.mp3''\<rparr>)]"

text \<open>\<^verbatim>\<open>Object.keys(PRESETS)\<close>: the own keys, in insertion order.\<close>

definition Object_keys :: "(string \<times> 'a) list \<Rightarrow> string list" where
  "Object_keys obj = map fst obj"

text \<open>
  \<^verbatim>\<open>PRESETS\<close> is an object literal, so the property read \<^verbatim>\<open>PRESETS[presetName]\<close> also
  finds the members every object inherits from \<^verbatim>\<open>Object.prototype\<close>. Each of them is a
  truthy value (a function, or the prototype object itself) without a \<^verbatim>\<open>cli\<close> or an
  \<^verbatim>\<open>outputExtension\<close> property.
\<close>

definition Object_prototype_names :: "string list" where
  "Object_prototype_names =
     [''constructor'', ''__defineGetter__'', ''__defineSetter__'', ''hasOwnProperty'',
      ''__lookupGetter__'', ''__lookupSetter__'', ''isPrototypeOf'', ''propertyIsEnumerable'',
      ''toString'', ''valueOf'', ''__proto__'', ''toLocaleString'']"

definition get_preset :: "string \<Rightarrow> preset option" where
  "get_preset presetName =
     (case map_of PRESETS presetName of
        Some p \<Rightarrow> Some p
      | None \<Rightarrow>
          if presetName \<in> set Object_prototype_names
          then Some \<lparr>cli = None, outputExtension = None\<rparr>
          else None)"

section \<open>The external engine, the file system and the clock\<close>

text \<open>
  What \<^verbatim>\<open>ffprobe\<close> hands to the callback: \<^verbatim>\<open>metadata.format\<close> with \<^verbatim>\<open>size\<close> and
  \<^verbatim>\<open>duration\<close>, and \<^verbatim>\<open>metadata.streams\<close>, each stream with \<^verbatim>\<open>codec_type\<close>,
  \<^verbatim>\<open>codec_name\<close> and \<^verbatim>\<open>bit_rate\<close> (any of them possibly absent).
\<close>

record format =
  format_size :: jsval
  format_duration :: jsval

record stream =
  codec_type :: "string option"
  codec_name :: "string option"
  bit_rate :: jsval

record metadata =
  format :: format
  streams :: "stream list"

text \<open>The object \<^verbatim>\<open>getFileStats\<close> resolves with (field \<^verbatim>\<open>size\<close> is \<open>fsize\<close> here).\<close>

record FileStats =
  fsize :: jsval
  duration :: jsval
  videoCodec :: "string option"
  videoBitrate :: jsval
  audioCodec :: "string option"
  audioBitrate :: jsval

text \<open>A \<^verbatim>\<open>Date\<close>, read through \<^verbatim>\<open>getTime()\<close> (milliseconds) and \<^verbatim>\<open>toISOString()\<close>.\<close>

record js_date =
  getTime :: int
  toISOString :: string

text \<open>
  Every interaction with the outside is recorded in a trace. The outside answers each call
  as a function of the calls made so far and of the call's arguments, which is the most
  general deterministic environment. An error answer carries the error's \<^verbatim>\<open>message\<close>.
  The engine run is taken as a call that comes back with its terminal event: \<open>None\<close> for
  \<^verbatim>\<open>end\<close>, \<open>Some message\<close> for \<^verbatim>\<open>error\<close>; the \<^verbatim>\<open>start\<close> and \<^verbatim>\<open>progress\<close> handlers write to the
  console only and are left out.
\<close>

datatype call =
    Mkdir string
  | Readdir string
  | Ffprobe string
  | Ffmpeg string "string list option" string
  | NewDate

record env =
  dirname :: string
  logFileName :: string
  fs_mkdir :: "call list \<Rightarrow> string \<Rightarrow> string option"
  fs_readdir :: "call list \<Rightarrow> string \<Rightarrow> string + string list"
  ffprobe :: "call list \<Rightarrow> string \<Rightarrow> string + metadata"
  ffmpeg_run :: "call list \<Rightarrow> string \<Rightarrow> string list option \<Rightarrow> string \<Rightarrow> string option"
  new_Date :: "call list \<Rightarrow> js_date"

definition inputDir :: "env \<Rightarrow> string" where
  "inputDir E = path_join (dirname E) ''input''"

definition outputDir :: "env \<Rightarrow> string" where
  "outputDir E = path_join (dirname E) ''output''"

text \<open>
  The state of a run: the messages passed to \<^verbatim>\<open>logInfo\<close> so far, in order, and the trace.
  \<^verbatim>\<open>logInfo\<close> prints its message to the console and appends it, behind a time stamp, to
  the log file; a failing append is caught inside \<^verbatim>\<open>logInfo\<close>, so \<^verbatim>\<open>logInfo\<close> never throws.
\<close>

record state =
  logged :: "string list"
  calls :: "call list"

definition logInfo :: "string \<Rightarrow> state \<Rightarrow> state" where
  "logInfo message s = s\<lparr>logged := logged s @ [message]\<rparr>"

text \<open>Several \<^verbatim>\<open>logInfo\<close> calls in a row.\<close>

definition logInfos :: "string list \<Rightarrow> state \<Rightarrow> state" where
  "logInfos messages s = foldl (\<lambda>s m. logInfo m s) s messages"

definition record_call :: "call \<Rightarrow> state \<Rightarrow> state" where
  "record_call c s = s\<lparr>calls := calls s @ [c]\<rparr>"

section \<open>Metadata prober\<close>

text \<open>
  \<^verbatim>\<open>
  resolve({
    size: format.size,
    duration: format.duration,
    videoCodec: videoStream ? videoStream.codec_name : 'N/A',
    videoBitrate: videoStream ? (videoStream.bit_rate || 'N/A') : 'N/A',
    audioCodec: audioStream ? audioStream.codec_name : 'N/A',
    audioBitrate: audioStream ? (audioStream.bit_rate || 'N/A') : 'N/A',
  });\<close>
\<close>

definition fileStats :: "metadata \<Rightarrow> FileStats" where
  "fileStats md =
     (let videoStream = find (\<lambda>s. codec_type s = Some ''video'') (streams md);
          audioStream = find (\<lambda>s. codec_type s = Some ''audio'') (streams md)
      in \<lparr>fsize = format_size (format md),
          duration = format_duration (format md),
          videoCodec = (case videoStream of Some v \<Rightarrow> codec_name v | None \<Rightarrow> Some ''N/A''),
          videoBitrate =
            (case videoStream of Some v \<Rightarrow> js_or (bit_rate v) (Str ''N/A'') | None \<Rightarrow> Str ''N/A''),
          audioCodec = (case audioStream of Some a \<Rightarrow> codec_name a | None \<Rightarrow> Some ''N/A''),
          audioBitrate =
            (case audioStream of Some a \<Rightarrow> js_or (bit_rate a) (Str ''N/A'') | None \<Rightarrow> Str ''N/A'')\<rparr>)"

text \<open>\<^verbatim>\<open>getFileStats(filePath)\<close>: \<open>Inl\<close> is the rejection, with the message of the new error.\<close>

definition getFileStats :: "env \<Rightarrow> string \<Rightarrow> state \<Rightarrow> (string + FileStats) \<times> state" where
  "getFileStats E filePath s =
     (case ffprobe E (calls s) filePath of
        Inl message \<Rightarrow>
          (Inl (''ffprobe error for '' @ filePath @ '': '' @ message), record_call (Ffprobe filePath) s)
      | Inr md \<Rightarrow> (Inr (fileStats md), record_call (Ffprobe filePath) s))"


section \<open>Conversion orchestrator\<close>

text \<open>Strings are byte lists; the symbols in the messages are their UTF-8 encodings.\<close>

definition ROCKET :: string where "ROCKET = [CHR 0xF0, CHR 0x9F, CHR 0x9A, CHR 0x80]"
definition CROSS :: string where "CROSS = [CHR 0xE2, CHR 0x9D, CHR 0x8C]"
definition YELLOW :: string where "YELLOW = [CHR 0xF0, CHR 0x9F, CHR 0x9F, CHR 0xA1]"
definition CHECK :: string where "CHECK = [CHR 0xE2, CHR 0x9C, CHR 0x85]"
definition WARN :: string where "WARN = [CHR 0xE2, CHR 0x9A, CHR 0xA0, CHR 0xEF, CHR 0xB8, CHR 0x8F]"
definition FLAG :: string where "FLAG = [CHR 0xF0, CHR 0x9F, CHR 0x8F, CHR 0x81]"
definition NL :: string where "NL = [CHR 0x0A]"
definition DQ :: string where "DQ = [CHR 0x22]"

definition msg_start :: "string \<Rightarrow> string" where
  "msg_start presetName = ROCKET @ '' Starting conversion session with preset: '' @ presetName"

definition msg_preset_not_found :: "string \<Rightarrow> string" where
  "msg_preset_not_found presetName =
     CROSS @ '' Error: Preset '' @ DQ @ presetName @ DQ @ '' not found.''"

definition msg_available :: string where
  "msg_available = ''Available presets: '' @ join '', '' (Object_keys PRESETS)"

definition msg_dir_error :: "string \<Rightarrow> string" where
  "msg_dir_error message = CROSS @ '' Critical error reading/creating directories: '' @ message"

definition msg_no_files :: string where
  "msg_no_files = YELLOW @ '' No video files found in /input folder.''"

definition msg_found :: "nat \<Rightarrow> string" where
  "msg_found n = ''Found '' @ string_of_nat n @ '' video files. Starting sequential processing...''"

definition msg_file_start :: "nat \<Rightarrow> nat \<Rightarrow> string \<Rightarrow> string" where
  "msg_file_start i n file =
     NL @ ''--- ['' @ string_of_nat (i + 1) @ ''/'' @ string_of_nat n
        @ ''] Starting processing: '' @ file @ '' ---''"

text \<open>The four lines logged for a probed file, under the title line given.\<close>

definition stats_lines :: "string \<Rightarrow> FileStats \<Rightarrow> string list" where
  "stats_lines title st =
     [title,
      ''    File Size: '' @ formatBytes (fsize st),
      ''    Video: '' @ tmpl (videoCodec st) @ '' @ '' @ formatBitrate (videoBitrate st),
      ''    Audio: '' @ tmpl (audioCodec st) @ '' @ '' @ formatBitrate (audioBitrate st)]"

definition msg_probe_error :: "string \<Rightarrow> string \<Rightarrow> string" where
  "msg_probe_error file message =
     CROSS @ '' Error getting stats (ffprobe) for '' @ file @ '': '' @ message"

definition msg_skipping :: "string \<Rightarrow> string" where
  "msg_skipping file = ''--- Skipping file: '' @ file @ '' ---''"

definition msg_start_time :: "js_date \<Rightarrow> string" where
  "msg_start_time d = ''  Start Time: '' @ toISOString d"

definition msg_end_time :: "js_date \<Rightarrow> string" where
  "msg_end_time d = ''  End Time: '' @ toISOString d"

definition msg_duration :: "int \<Rightarrow> string" where
  "msg_duration durationMs =
     ''  Duration: '' @ toFixed 2 (js_div (Finite (of_int durationMs)) (Finite 1000)) @ '' seconds''"

definition msg_failed :: "string \<Rightarrow> string \<Rightarrow> string" where
  "msg_failed file message = ''  '' @ CROSS @ '' ['' @ file @ '']: FAILED. Error: '' @ message"

text \<open>
  \<^verbatim>\<open>const sizeChange = ((targetStats.size - sourceStats.size) / sourceStats.size) * 100;\<close>
\<close>

definition sizeChange :: "FileStats \<Rightarrow> FileStats \<Rightarrow> jsnum" where
  "sizeChange sourceStats targetStats =
     js_mul (js_div (js_sub (ToNumber (fsize targetStats)) (ToNumber (fsize sourceStats)))
                    (ToNumber (fsize sourceStats)))
            (Finite 100)"

definition msg_size_change :: "FileStats \<Rightarrow> FileStats \<Rightarrow> string" where
  "msg_size_change sourceStats targetStats =
     ''    Size Change: '' @ toFixed 2 (sizeChange sourceStats targetStats) @ ''% (from ''
       @ formatBytes (fsize sourceStats) @ '' to '' @ formatBytes (fsize targetStats) @ '')''"

definition msg_success :: "string \<Rightarrow> string \<Rightarrow> string" where
  "msg_success file outputName =
     ''  '' @ CHECK @ '' ['' @ file @ '']: SUCCESS -> '' @ outputName"

definition msg_success_no_stats :: "string \<Rightarrow> string \<Rightarrow> string" where
  "msg_success_no_stats file message =
     ''  '' @ WARN @ '' ['' @ file @ '']: SUCCESS, but failed to get target stats: '' @ message"

definition msg_finished :: "string \<Rightarrow> string" where
  "msg_finished file = ''--- Finished: '' @ file @ '' ---''"

definition msg_session_finished :: string where
  "msg_session_finished = NL @ ''--- '' @ FLAG @ '' Conversion session finished ---''"

definition msg_successful :: "nat \<Rightarrow> string" where
  "msg_successful successCount = ''Successful: '' @ string_of_nat successCount"

definition msg_failed_skipped :: "nat \<Rightarrow> string" where
  "msg_failed_skipped failedCount = ''Failed / Skipped: '' @ string_of_nat failedCount"

definition msg_all_logs :: "env \<Rightarrow> string" where
  "msg_all_logs E = ''All logs saved to: '' @ logFileName E"

text \<open>\<^verbatim>\<open>const outputName = `${fileData.name}${preset.outputExtension}`;\<close>\<close>

definition outputName :: "preset \<Rightarrow> string \<Rightarrow> string" where
  "outputName p file = parse_name file @ tmpl (outputExtension p)"

text \<open>
  \<^verbatim>\<open>const inputPath = path.join(inputDir, file);\<close> and
  \<^verbatim>\<open>const outputPath = path.join(outputDir, outputName);\<close>
\<close>

definition inputPath :: "env \<Rightarrow> string \<Rightarrow> string" where
  "inputPath E file = path_join (inputDir E) file"

definition outputPath :: "env \<Rightarrow> preset \<Rightarrow> string \<Rightarrow> string" where
  "outputPath E p file = path_join (outputDir E) (outputName p file)"

text \<open>
  The part of the loop body after the source probe succeeded: time stamps, the engine run,
  and the handling of its result. The counters are the first two components.
\<close>

definition convert_one ::
  "env \<Rightarrow> preset \<Rightarrow> string \<Rightarrow> FileStats \<Rightarrow> nat \<times> nat \<times> state \<Rightarrow> nat \<times> nat \<times> state" where
  "convert_one E p file sourceStats acc =
     (case acc of (successCount, failedCount, s) \<Rightarrow>
        let startTime = new_Date E (calls s);
            s = logInfo (msg_start_time startTime) (record_call NewDate s);
            conversionError =
              ffmpeg_run E (calls s) (inputPath E file) (cli p) (outputPath E p file);
            s = record_call (Ffmpeg (inputPath E file) (cli p) (outputPath E p file)) s;
            endTime = new_Date E (calls s);
            s = record_call NewDate s;
            durationMs = getTime endTime - getTime startTime;
            s = logInfos [msg_end_time endTime, msg_duration durationMs] s
        in (case conversionError of
              Some message \<Rightarrow>
                (successCount, failedCount + 1,
                 logInfos [msg_failed file message, msg_finished file] s)
            | None \<Rightarrow>
                (case getFileStats E (outputPath E p file) s of
                   (Inr targetStats, s) \<Rightarrow>
                     (successCount + 1, failedCount,
                      logInfos (stats_lines ''  Target Stats:'' targetStats
                                @ [msg_size_change sourceStats targetStats,
                                   msg_success file (outputName p file),
                                   msg_finished file]) s)
                 | (Inl message, s) \<Rightarrow>
                     (successCount + 1, failedCount,
                      logInfos [msg_success_no_stats file message, msg_finished file] s))))"

text \<open>One iteration of the \<^verbatim>\<open>for\<close> loop, for index \<open>i\<close>.\<close>

definition loop_body ::
  "env \<Rightarrow> preset \<Rightarrow> string list \<Rightarrow> nat \<Rightarrow> nat \<times> nat \<times> state \<Rightarrow> nat \<times> nat \<times> state" where
  "loop_body E p videoFiles i acc =
     (case acc of (successCount, failedCount, s) \<Rightarrow>
        let file = videoFiles ! i;
            s = logInfo (msg_file_start i (length videoFiles) file) s
        in (case getFileStats E (inputPath E file) s of
              (Inl message, s) \<Rightarrow>
                (successCount, failedCount + 1,
                 logInfos [msg_probe_error file message, msg_skipping file] s)
            | (Inr sourceStats, s) \<Rightarrow>
                convert_one E p file sourceStats
                  (successCount, failedCount,
                   logInfos (stats_lines ''  Source Stats:'' sourceStats) s)))"

text \<open>\<^verbatim>\<open>for (let i = 0; i < videoFiles.length; i++) { ... }\<close>\<close>

function loop ::
  "env \<Rightarrow> preset \<Rightarrow> string list \<Rightarrow> nat \<Rightarrow> nat \<times> nat \<times> state \<Rightarrow> nat \<times> nat \<times> state" where
  "loop E p videoFiles i acc =
     (if i < length videoFiles
      then loop E p videoFiles (Suc i) (loop_body E p videoFiles i acc)
      else acc)"
  by pat_completeness auto
termination
  by (relation "measure (\<lambda>(E, p, videoFiles, i, acc). length videoFiles - i)") auto

declare loop.simps [simp del]

text \<open>
  How a run ended: at one of the three early \<^verbatim>\<open>return\<close> statements, or after the summary,
  with the final values of \<^verbatim>\<open>successCount\<close> and \<^verbatim>\<open>failedCount\<close>.
\<close>

datatype outcome =
    PresetNotFound
  | DirectoryFailure
  | NoVideoFiles
  | SessionFinished nat nat

text \<open>
  \<^verbatim>\<open>
  try {
    await fs.mkdir(inputDir, { recursive: true });
    await fs.mkdir(outputDir, { recursive: true });
    files = await fs.readdir(inputDir);
  } catch (err) { ... }\<close>
\<close>

definition prepare_dirs :: "env \<Rightarrow> state \<Rightarrow> (string + string list) \<times> state" where
  "prepare_dirs E s =
     (case fs_mkdir E (calls s) (inputDir E) of
        Some message \<Rightarrow> (Inl message, record_call (Mkdir (inputDir E)) s)
      | None \<Rightarrow>
          (let s = record_call (Mkdir (inputDir E)) s
           in (case fs_mkdir E (calls s) (outputDir E) of
                 Some message \<Rightarrow> (Inl message, record_call (Mkdir (outputDir E)) s)
               | None \<Rightarrow>
                   (let s = record_call (Mkdir (outputDir E)) s
                    in (fs_readdir E (calls s) (inputDir E),
                        record_call (Readdir (inputDir E)) s)))))"

definition initial :: state where
  "initial = \<lparr>logged = [], calls = []\<rparr>"

definition convertVideos :: "env \<Rightarrow> string \<Rightarrow> outcome \<times> state" where
  "convertVideos E presetName =
     (let s = logInfo (msg_start presetName) initial
      in (case get_preset presetName of
           None \<Rightarrow>
             (PresetNotFound, logInfos [msg_preset_not_found presetName, msg_available] s)
         | Some p \<Rightarrow>
             (case prepare_dirs E s of
                (Inl message, s) \<Rightarrow> (DirectoryFailure, logInfo (msg_dir_error message) s)
              | (Inr files, s) \<Rightarrow>
                  let videoFiles = filter is_video files
                  in if length videoFiles = 0 then (NoVideoFiles, logInfo msg_no_files s)
                     else
                       (case loop E p videoFiles 0
                               (0, 0, logInfo (msg_found (length videoFiles)) s) of
                          (successCount, failedCount, s) \<Rightarrow>
                            (SessionFinished successCount failedCount,
                             logInfos [msg_session_finished,
                                       msg_successful successCount,
                                       msg_failed_skipped failedCount,
                                       msg_all_logs E] s)))))"


text \<open>
  The counters and the state with which the loop is entered when the preset is found, both
  directories exist and \<open>n\<close> candidates are listed: two lines logged, three file-system calls.
\<close>

definition loop_start :: "env \<Rightarrow> string \<Rightarrow> nat \<Rightarrow> nat \<times> nat \<times> state" where
  "loop_start E presetName n =
     (0, 0,
      \<lparr>logged = [msg_start presetName, msg_found n],
       calls = [Mkdir (inputDir E), Mkdir (outputDir E), Readdir (inputDir E)]\<rparr>)"

text \<open>
  The counters and the state after the iterations for the indices \<open>0, \<dots>, k - 1\<close>, started
  from \<open>acc\<close>: the loop body applied to each index in turn.
\<close>

definition after_jobs ::
  "env \<Rightarrow> preset \<Rightarrow> string list \<Rightarrow> nat \<times> nat \<times> state \<Rightarrow> nat \<Rightarrow> nat \<times> nat \<times> state" where
  "after_jobs E p videoFiles acc k = foldl (\<lambda>acc i. loop_body E p videoFiles i acc) acc [0..<k]"

section \<open>Sample inputs\<close>

text \<open>Metadata of a file of \<open>n\<close> bytes with a video stream without bit rate and an audio stream.\<close>

definition demo_metadata :: "rat \<Rightarrow> metadata" where
  "demo_metadata n =
     \<lparr>format = \<lparr>format_size = Num (Finite n), format_duration = Num (Finite 10)\<rparr>,
      streams =
        [\<lparr>codec_type = Some ''video'', codec_name = Some ''h264'', bit_rate = Undefined\<rparr>,
         \<lparr>codec_type = Some ''audio'', codec_name = Some ''aac'', bit_rate = Num (Finite 128000)\<rparr>]\<rparr>"

text \<open>Metadata of an audio-only file.\<close>

definition audio_only_metadata :: metadata where
  "audio_only_metadata =
     \<lparr>format = \<lparr>format_size = Num (Finite 4096), format_duration = Num (Finite 10)\<rparr>,
      streams =
        [\<lparr>codec_type = Some ''audio'', codec_name = Some ''mp3'', bit_rate = Undefined\<rparr>]\<rparr>"

text \<open>
  An installation in \<^verbatim>\<open>/app\<close> whose input directory holds four entries: \<^verbatim>\<open>a.mp4\<close> is an
  empty file that converts, \<^verbatim>\<open>notes.txt\<close> is no video, \<^verbatim>\<open>b.MKV\<close> cannot be probed, and the
  output of \<^verbatim>\<open>c.avi\<close> cannot be probed.
\<close>

definition demo_env :: env where
  "demo_env =
     \<lparr>dirname = ''/app'',
      logFileName = ''/app/process_2025_01_01.log'',
      fs_mkdir = (\<lambda>h path. None),
      fs_readdir = (\<lambda>h path. Inr [''a.mp4'', ''notes.txt'', ''b.MKV'', ''c.avi'']),
      ffprobe = (\<lambda>h path.
        if path = ''/app/input/b.MKV'' then Inl ''Invalid data found when processing input''
        else if path = ''/app/output/c.mp3'' then Inl ''No such file or directory''
        else if path = ''/app/input/a.mp4'' then Inr (demo_metadata 0)
        else Inr (demo_metadata 1536)),
      ffmpeg_run = (\<lambda>h input options output. None),
      new_Date = (\<lambda>h. \<lparr>getTime = int (length h) * 1000, toISOString = ''2025-01-01T00:00:00.000Z''\<rparr>)\<rparr>"

text \<open>The same installation with an input directory without any video file.\<close>

definition no_video_env :: env where
  "no_video_env = demo_env\<lparr>fs_readdir := (\<lambda>h path. Inr [''notes.txt''])\<rparr>"

text \<open>The sample installation again, with an engine that fails on \<^verbatim>\<open>a.mp4\<close>.\<close>

definition engine_failure_env :: env where
  "engine_failure_env =
     demo_env\<lparr>ffmpeg_run := (\<lambda>h input options output.
        if input = ''/app/input/a.mp4'' then Some ''Conversion failed!'' else None)\<rparr>"

text \<open>The preset \<^verbatim>\<open>extract_audio\<close> of the registry, and the candidates among the four entries.\<close>

definition extract_audio :: preset where
  "extract_audio =
     \<lparr>cli = Some [''-vn'', ''-c:a'', ''libmp3lame'', ''-q:a'', ''2''],
      outputExtension = Some ''.mp3''\<rparr>"

definition demo_files :: "string list" where
  "demo_files = [''a.mp4'', ''b.MKV'', ''c.avi'']"

section \<open>Basic facts about the run state\<close>

lemma logInfo_simps [simp]:
  "logged (logInfo m s) = logged s @ [m]"
  "calls (logInfo m s) = calls s"
  by (simp_all add: logInfo_def)

lemma logInfos_eq: "logInfos ms s = s\<lparr>logged := logged s @ ms\<rparr>"
  unfolding logInfos_def
  by (induction ms arbitrary: s rule: rev_induct) (simp_all add: logInfo_def)

lemma logInfos_simps [simp]:
  "logged (logInfos ms s) = logged s @ ms"
  "calls (logInfos ms s) = calls s"
  by (simp_all add: logInfos_eq)

lemma record_call_simps [simp]:
  "logged (record_call c s) = logged s"
  "calls (record_call c s) = calls s @ [c]"
  by (simp_all add: record_call_def)

lemma getFileStats_state [simp]:
  "snd (getFileStats E path s) = record_call (Ffprobe path) s"
  by (simp add: getFileStats_def split: sum.split)

section \<open>Formatter utilities: properties\<close>

text \<open>
  Claim C10. \<^verbatim>\<open>formatBitrate(0)\<close> returns the unknown-bitrate label \<^verbatim>\<open>'N/A'\<close>: a bitrate that
  is numerically zero is rendered exactly like an absent (\<^verbatim>\<open>undefined\<close>) or non-numeric
  (\<^verbatim>\<open>'N/A'\<close>) bitrate, so the formatted text does not tell a measured 0 b/s from an unknown
  bitrate.
\<close>

theorem formatBitrate_zero_is_unknown:
  "formatBitrate (Num (Finite 0)) = ''N/A''
   \<and> formatBitrate (Num (Finite 0)) = formatBitrate Undefined
   \<and> formatBitrate (Num (Finite 0)) = formatBitrate (Str ''N/A'')"
  by (simp add: formatBitrate_def)

text \<open>Claim C10, the first conjunct on its own.\<close>

theorem formatBitrate_zero_is_unknown_witness:
  "formatBitrate (Num (Finite 0)) = ''N/A''"
  using formatBitrate_zero_is_unknown by simp

text \<open>
  Claim C9. \<^verbatim>\<open>formatBytes(0)\<close> returns the zero-bytes label \<^verbatim>\<open>0 Bytes\<close>, and
  \<^verbatim>\<open>formatBytes(1536)\<close> returns the equivalent of 1.50 KB: 1536/1024 = 1.5 is formatted to
  two decimals (\<^verbatim>\<open>1.50\<close>), read back by \<^verbatim>\<open>parseFloat\<close> and printed with the unit, which gives
  the text \<^verbatim>\<open>1.5 KB\<close>.
\<close>

theorem formatBytes_zero_and_1536:
  "formatBytes (Num (Finite 0)) = ''0 Bytes'' \<and> formatBytes (Num (Finite 1536)) = ''1.5 KB''"
  by code_simp

section \<open>Metadata prober: properties\<close>

text \<open>
  Claim C2, as stated: the prober never gives the same bitrate value to a stream that
  exists without a bitrate and to a stream type that is absent. It does: the video
  stream of \<open>demo_metadata\<close> has no bitrate, \<open>audio_only_metadata\<close> has no video stream,
  and both get the same \<^verbatim>\<open>videoBitrate\<close>.
\<close>

theorem bitrate_unknown_equals_not_applicable:
  "find (\<lambda>s. codec_type s = Some ''video'') (streams (demo_metadata 1536))
     = Some \<lparr>codec_type = Some ''video'', codec_name = Some ''h264'', bit_rate = Undefined\<rparr>
   \<and> find (\<lambda>s. codec_type s = Some ''video'') (streams audio_only_metadata) = None
   \<and> videoBitrate (fileStats (demo_metadata 1536)) = videoBitrate (fileStats audio_only_metadata)"
  by (simp add: fileStats_def demo_metadata_def audio_only_metadata_def js_or_def)

text \<open>
  Claim C2, amended: for every probed file, a stream that exists but has no usable bitrate
  in the container metadata (absent, zero or empty) and a stream type that is absent
  altogether are represented by one and the same value, the string \<^verbatim>\<open>'N/A'\<close>, in the
  \<^verbatim>\<open>videoBitrate\<close> and \<^verbatim>\<open>audioBitrate\<close> fields.
\<close>

theorem bitrate_missing_is_NA:
  "(find (\<lambda>s. codec_type s = Some ''video'') (streams md) = None
      \<longrightarrow> videoBitrate (fileStats md) = Str ''N/A'')
   \<and> (\<forall>v. find (\<lambda>s. codec_type s = Some ''video'') (streams md) = Some v
          \<longrightarrow> \<not> truthy (bit_rate v) \<longrightarrow> videoBitrate (fileStats md) = Str ''N/A'')
   \<and> (find (\<lambda>s. codec_type s = Some ''audio'') (streams md) = None
      \<longrightarrow> audioBitrate (fileStats md) = Str ''N/A'')
   \<and> (\<forall>a. find (\<lambda>s. codec_type s = Some ''audio'') (streams md) = Some a
          \<longrightarrow> \<not> truthy (bit_rate a) \<longrightarrow> audioBitrate (fileStats md) = Str ''N/A'')"
  by (simp add: fileStats_def js_or_def Let_def)

text \<open>
  Claim C2, amended, at concrete inputs: \<open>audio_only_metadata\<close> has an audio stream without
  bitrate and no video stream at all; both fields are \<^verbatim>\<open>'N/A'\<close>.
\<close>

theorem bitrate_missing_is_NA_witness:
  "find (\<lambda>s. codec_type s = Some ''video'') (streams audio_only_metadata) = None
   \<and> find (\<lambda>s. codec_type s = Some ''audio'') (streams audio_only_metadata)
       = Some \<lparr>codec_type = Some ''audio'', codec_name = Some ''mp3'', bit_rate = Undefined\<rparr>
   \<and> \<not> truthy (bit_rate \<lparr>codec_type = Some ''audio'', codec_name = Some ''mp3'', bit_rate = Undefined\<rparr>)
   \<and> videoBitrate (fileStats audio_only_metadata) = Str ''N/A''
   \<and> audioBitrate (fileStats audio_only_metadata) = Str ''N/A''"
  using bitrate_missing_is_NA [of audio_only_metadata]
  by (simp add: audio_only_metadata_def)


section \<open>The loop: counters, log and trace\<close>

text \<open>Every iteration increments exactly one of the two counters.\<close>

lemma convert_one_counts:
  "fst (convert_one E p file st acc) + fst (snd (convert_one E p file st acc))
     = Suc (fst acc + fst (snd acc))"
  by (cases acc) (simp add: convert_one_def Let_def split: option.split prod.split sum.split)

lemma loop_body_counts:
  "fst (loop_body E p vf i acc) + fst (snd (loop_body E p vf i acc))
     = Suc (fst acc + fst (snd acc))"
  by (cases acc)
     (simp add: loop_body_def Let_def convert_one_counts split: prod.split sum.split)

lemma loop_counts:
  "fst (loop E p vf i acc) + fst (snd (loop E p vf i acc))
     = fst acc + fst (snd acc) + (length vf - i)"
proof (induction E p vf i acc rule: loop.induct)
  case (1 E p vf i acc)
  show ?case
  proof (cases "i < length vf")
    case True
    with 1 show ?thesis
      by (subst (1 2) loop.simps) (simp add: loop_body_counts Suc_diff_Suc)
  next
    case False
    then show ?thesis by (subst (1 2) loop.simps) simp
  qed
qed

text \<open>The log and the trace only grow; an iteration starts with its header line and its probe.\<close>

lemma convert_one_extends:
  "\<exists>l c. logged (snd (snd (convert_one E p file st acc))) = logged (snd (snd acc)) @ l
       \<and> calls (snd (snd (convert_one E p file st acc))) = calls (snd (snd acc)) @ c"
  by (cases acc)
     (simp add: convert_one_def Let_def getFileStats_def split: option.split prod.split sum.split)

lemma loop_body_extends:
  "\<exists>l c. logged (snd (snd (loop_body E p vf i acc)))
             = logged (snd (snd acc)) @ msg_file_start i (length vf) (vf ! i) # l
       \<and> calls (snd (snd (loop_body E p vf i acc)))
             = calls (snd (snd acc)) @ Ffprobe (inputPath E (vf ! i)) # c"
proof (cases acc)
  case (fields sc fc s)
  let ?s1 = "logInfo (msg_file_start i (length vf) (vf ! i)) s"
  let ?inp = "inputPath E (vf ! i)"
  show ?thesis
  proof (cases "fst (getFileStats E ?inp ?s1)")
    case (Inl m)
    then have g: "getFileStats E ?inp ?s1 = (Inl m, record_call (Ffprobe ?inp) ?s1)"
      by (metis getFileStats_state prod.collapse)
    show ?thesis
      by (simp add: fields loop_body_def Let_def g)
  next
    case (Inr st)
    let ?s2 = "logInfos (stats_lines ''  Source Stats:'' st) (record_call (Ffprobe ?inp) ?s1)"
    from Inr have g: "getFileStats E ?inp ?s1 = (Inr st, record_call (Ffprobe ?inp) ?s1)"
      by (metis getFileStats_state prod.collapse)
    obtain l c where
      "logged (snd (snd (convert_one E p (vf ! i) st (sc, fc, ?s2)))) = logged ?s2 @ l"
      "calls (snd (snd (convert_one E p (vf ! i) st (sc, fc, ?s2)))) = calls ?s2 @ c"
      using convert_one_extends [of E p "vf ! i" st "(sc, fc, ?s2)"] by auto
    then show ?thesis
      by (simp add: fields loop_body_def Let_def g)
  qed
qed

lemma loop_extends:
  "\<exists>l c. logged (snd (snd (loop E p vf i acc))) = logged (snd (snd acc)) @ l
       \<and> calls (snd (snd (loop E p vf i acc))) = calls (snd (snd acc)) @ c"
proof (induction E p vf i acc rule: loop.induct)
  case (1 E p vf i acc)
  show ?case
  proof (cases "i < length vf")
    case True
    from 1 [OF True] obtain l c where
      "logged (snd (snd (loop E p vf (Suc i) (loop_body E p vf i acc))))
         = logged (snd (snd (loop_body E p vf i acc))) @ l"
      "calls (snd (snd (loop E p vf (Suc i) (loop_body E p vf i acc))))
         = calls (snd (snd (loop_body E p vf i acc))) @ c"
      by blast
    moreover obtain l' c' where
      "logged (snd (snd (loop_body E p vf i acc)))
         = logged (snd (snd acc)) @ msg_file_start i (length vf) (vf ! i) # l'"
      "calls (snd (snd (loop_body E p vf i acc)))
         = calls (snd (snd acc)) @ Ffprobe (inputPath E (vf ! i)) # c'"
      using loop_body_extends by blast
    ultimately show ?thesis
      using True by (subst (1 2) loop.simps) simp
  next
    case False
    then show ?thesis by (subst (1 2) loop.simps) simp
  qed
qed

text \<open>Whatever happens to the files before it, every file from index \<open>i\<close> on is started.\<close>

lemma loop_visits_every_file:
  "i \<le> j \<Longrightarrow> j < length vf \<Longrightarrow>
     msg_file_start j (length vf) (vf ! j) \<in> set (logged (snd (snd (loop E p vf i acc))))
     \<and> Ffprobe (inputPath E (vf ! j)) \<in> set (calls (snd (snd (loop E p vf i acc))))"
proof (induction E p vf i acc rule: loop.induct)
  case (1 E p vf i acc)
  from 1(2,3) have lt: "i < length vf" by simp
  have unfold: "loop E p vf i acc = loop E p vf (Suc i) (loop_body E p vf i acc)"
    using lt by (subst loop.simps) simp
  show ?case
  proof (cases "i = j")
    case True
    obtain l c where
      "logged (snd (snd (loop E p vf (Suc i) (loop_body E p vf i acc))))
         = logged (snd (snd (loop_body E p vf i acc))) @ l"
      "calls (snd (snd (loop E p vf (Suc i) (loop_body E p vf i acc))))
         = calls (snd (snd (loop_body E p vf i acc))) @ c"
      using loop_extends by blast
    moreover obtain l' c' where
      "logged (snd (snd (loop_body E p vf i acc)))
         = logged (snd (snd acc)) @ msg_file_start i (length vf) (vf ! i) # l'"
      "calls (snd (snd (loop_body E p vf i acc)))
         = calls (snd (snd acc)) @ Ffprobe (inputPath E (vf ! i)) # c'"
      using loop_body_extends by blast
    ultimately have
      "msg_file_start i (length vf) (vf ! i) \<in> set (logged (snd (snd (loop E p vf i acc))))
       \<and> Ffprobe (inputPath E (vf ! i)) \<in> set (calls (snd (snd (loop E p vf i acc))))"
      by (simp add: unfold)
    with True show ?thesis by simp
  next
    case False
    with 1(2) have "Suc i \<le> j" by simp
    from 1(1) [OF lt this 1(3)] show ?thesis
      by (simp add: unfold)
  qed
qed

section \<open>Reaching the loop\<close>

lemma prepare_dirs_ok:
  assumes "fs_mkdir E [] (inputDir E) = None"
    and "fs_mkdir E [Mkdir (inputDir E)] (outputDir E) = None"
    and "fs_readdir E [Mkdir (inputDir E), Mkdir (outputDir E)] (inputDir E) = Inr files"
    and "calls s = []"
  shows "prepare_dirs E s =
           (Inr files, s\<lparr>calls := [Mkdir (inputDir E), Mkdir (outputDir E), Readdir (inputDir E)]\<rparr>)"
  using assms by (simp add: prepare_dirs_def Let_def record_call_def)

lemma convertVideos_reaches_loop:
  assumes "get_preset presetName = Some p"
    and "fs_mkdir E [] (inputDir E) = None"
    and "fs_mkdir E [Mkdir (inputDir E)] (outputDir E) = None"
    and "fs_readdir E [Mkdir (inputDir E), Mkdir (outputDir E)] (inputDir E) = Inr files"
    and "filter is_video files \<noteq> []"
  shows "convertVideos E presetName =
           (case loop E p (filter is_video files) 0
                   (loop_start E presetName (length (filter is_video files))) of
              (successCount, failedCount, s) \<Rightarrow>
                (SessionFinished successCount failedCount,
                 logInfos [msg_session_finished, msg_successful successCount,
                           msg_failed_skipped failedCount, msg_all_logs E] s))"
proof -
  let ?s0 = "logInfo (msg_start presetName) initial"
  let ?vf = "filter is_video files"
  have "calls ?s0 = []" by (simp add: initial_def)
  note dirs = prepare_dirs_ok [OF assms(2-4) this]
  have start: "(0, 0, logInfo (msg_found (length ?vf))
                  (?s0\<lparr>calls := [Mkdir (inputDir E), Mkdir (outputDir E), Readdir (inputDir E)]\<rparr>))
               = loop_start E presetName (length ?vf)"
    by (simp add: loop_start_def logInfo_def initial_def)
  show ?thesis
    using assms(1,5) by (simp add: convertVideos_def Let_def dirs start)
qed

section \<open>Single iterations\<close>

lemma body_source_probe_failure:
  assumes "ffprobe E (calls s) (inputPath E (vf ! i)) = Inl message"
  shows "loop_body E p vf i (successCount, failedCount, s) =
           (successCount, failedCount + 1,
            s\<lparr>logged := logged s
                   @ [msg_file_start i (length vf) (vf ! i),
                      msg_probe_error (vf ! i)
                        (''ffprobe error for '' @ inputPath E (vf ! i) @ '': '' @ message),
                      msg_skipping (vf ! i)],
              calls := calls s @ [Ffprobe (inputPath E (vf ! i))]\<rparr>)"
  using assms
  by (simp add: loop_body_def getFileStats_def Let_def logInfos_eq logInfo_def record_call_def)



lemma convertVideos_final_state:
  assumes "get_preset presetName = Some p"
    and "fs_mkdir E [] (inputDir E) = None"
    and "fs_mkdir E [Mkdir (inputDir E)] (outputDir E) = None"
    and "fs_readdir E [Mkdir (inputDir E), Mkdir (outputDir E)] (inputDir E) = Inr files"
    and "filter is_video files \<noteq> []"
  shows "\<exists>l. logged (snd (convertVideos E presetName))
               = logged (snd (snd (loop E p (filter is_video files) 0
                    (loop_start E presetName (length (filter is_video files))))))
                 @ l"
    and "calls (snd (convertVideos E presetName))
           = calls (snd (snd (loop E p (filter is_video files) 0
                (loop_start E presetName (length (filter is_video files))))))"
  by (simp_all add: convertVideos_reaches_loop [OF assms] split: prod.split)

section \<open>Sample run\<close>


lemma demo_preset: "get_preset ''extract_audio'' = Some extract_audio"
  by (simp add: get_preset_def PRESETS_def extract_audio_def)

lemma demo_map_of: "map_of PRESETS ''extract_audio'' = Some extract_audio"
  by (simp add: PRESETS_def extract_audio_def)

lemma demo_dirs:
  "fs_mkdir demo_env [] (inputDir demo_env) = None"
  "fs_mkdir demo_env [Mkdir (inputDir demo_env)] (outputDir demo_env) = None"
  "fs_readdir demo_env [Mkdir (inputDir demo_env), Mkdir (outputDir demo_env)] (inputDir demo_env)
     = Inr [''a.mp4'', ''notes.txt'', ''b.MKV'', ''c.avi'']"
  by (simp_all add: demo_env_def)

lemma no_video_dirs:
  "fs_mkdir no_video_env [] (inputDir no_video_env) = None"
  "fs_mkdir no_video_env [Mkdir (inputDir no_video_env)] (outputDir no_video_env) = None"
  "fs_readdir no_video_env [Mkdir (inputDir no_video_env), Mkdir (outputDir no_video_env)]
     (inputDir no_video_env) = Inr [''notes.txt'']"
  by (simp_all add: no_video_env_def demo_env_def)

lemma demo_candidates:
  "filter is_video [''a.mp4'', ''notes.txt'', ''b.MKV'', ''c.avi''] = demo_files"
  by code_simp

lemma demo_candidates_nonempty:
  "filter is_video [''a.mp4'', ''notes.txt'', ''b.MKV'', ''c.avi''] \<noteq> []"
  by (simp only: demo_candidates) (simp add: demo_files_def)

lemma demo_length: "length demo_files = 3"
  by (simp add: demo_files_def)

lemma no_video_candidates: "filter is_video [''notes.txt''] = []"
  by code_simp

lemma demo_dir_names:
  "inputDir demo_env = ''/app/input''" "outputDir demo_env = ''/app/output''"
  "inputDir no_video_env = ''/app/input''" "outputDir no_video_env = ''/app/output''"
  by (simp_all add: inputDir_def outputDir_def path_join_def demo_env_def no_video_env_def)

lemma demo_inputPath: "inputPath demo_env f = ''/app/input/'' @ f"
  by (simp add: inputPath_def inputDir_def path_join_def demo_env_def)

lemma demo_outputPath:
  "outputPath demo_env extract_audio ''a.mp4'' = ''/app/output/a.mp3''"
  "outputPath demo_env extract_audio ''c.avi'' = ''/app/output/c.mp3''"
  by code_simp+

lemma demo_probe:
  "ffprobe demo_env h ''/app/input/a.mp4'' = Inr (demo_metadata 0)"
  "ffprobe demo_env h ''/app/output/a.mp3'' = Inr (demo_metadata 1536)"
  "ffprobe demo_env h ''/app/input/b.MKV'' = Inl ''Invalid data found when processing input''"
  "ffprobe demo_env h ''/app/input/c.avi'' = Inr (demo_metadata 1536)"
  "ffprobe demo_env h ''/app/output/c.mp3'' = Inl ''No such file or directory''"
  by (simp_all add: demo_env_def)

lemma demo_engine: "ffmpeg_run demo_env h input options output = None"
  by (simp add: demo_env_def)




section \<open>Bookkeeping of a run\<close>

text \<open>
  Claim C5. For every run that reaches per-file processing (the preset is found, both
  directories can be created, the listing succeeds and has at least one candidate), the
  run ends with the summary, and the counters it reports satisfy
  \<open>successCount + failedCount = number of candidate files\<close>, whatever the probes and the
  engine answer.
\<close>

theorem counts_add_up:
  assumes "get_preset presetName = Some p"
    and "fs_mkdir E [] (inputDir E) = None"
    and "fs_mkdir E [Mkdir (inputDir E)] (outputDir E) = None"
    and "fs_readdir E [Mkdir (inputDir E), Mkdir (outputDir E)] (inputDir E) = Inr files"
    and "filter is_video files \<noteq> []"
  shows "\<exists>successCount failedCount s l.
           convertVideos E presetName = (SessionFinished successCount failedCount, s)
           \<and> successCount + failedCount = length (filter is_video files)
           \<and> logged s = l @ [msg_session_finished, msg_successful successCount,
                              msg_failed_skipped failedCount, msg_all_logs E]"
proof -
  let ?vf = "filter is_video files"
  obtain sc fc s2 where
    l: "loop E p ?vf 0 (loop_start E presetName (length ?vf)) = (sc, fc, s2)"
    using prod_cases3 by blast
  have "fst (loop E p ?vf 0 (loop_start E presetName (length ?vf)))
          + fst (snd (loop E p ?vf 0 (loop_start E presetName (length ?vf))))
        = fst (loop_start E presetName (length ?vf))
          + fst (snd (loop_start E presetName (length ?vf))) + (length ?vf - 0)"
    by (rule loop_counts)
  then have "sc + fc = fst (loop_start E presetName (length ?vf))
          + fst (snd (loop_start E presetName (length ?vf))) + (length ?vf - 0)"
    by (simp only: l fst_conv snd_conv)
  then have "sc + fc = length ?vf"
    by (simp add: loop_start_def)
  moreover have "convertVideos E presetName =
      (SessionFinished sc fc,
       logInfos [msg_session_finished, msg_successful sc, msg_failed_skipped fc, msg_all_logs E] s2)"
    by (simp add: convertVideos_reaches_loop [OF assms] l)
  ultimately show ?thesis
    by (intro exI [of _ sc] exI [of _ fc] exI [of _ "logged s2"]
          exI [of _ "logInfos [msg_session_finished, msg_successful sc,
                               msg_failed_skipped fc, msg_all_logs E] s2"]) simp
qed

text \<open>
  Claim C5 on the sample installation: three candidates among four entries, one of which
  cannot be probed.
\<close>

theorem counts_add_up_witness:
  "get_preset ''extract_audio'' = Some extract_audio
   \<and> fs_readdir demo_env [Mkdir (inputDir demo_env), Mkdir (outputDir demo_env)] (inputDir demo_env)
       = Inr [''a.mp4'', ''notes.txt'', ''b.MKV'', ''c.avi'']
   \<and> filter is_video [''a.mp4'', ''notes.txt'', ''b.MKV'', ''c.avi''] = demo_files
   \<and> (\<exists>successCount failedCount s l.
         convertVideos demo_env ''extract_audio'' = (SessionFinished successCount failedCount, s)
         \<and> successCount + failedCount = 3
         \<and> logged s = l @ [msg_session_finished, msg_successful successCount,
                            msg_failed_skipped failedCount, msg_all_logs demo_env])"
proof -
  have "\<exists>successCount failedCount s l.
         convertVideos demo_env ''extract_audio'' = (SessionFinished successCount failedCount, s)
         \<and> successCount + failedCount = 3
         \<and> logged s = l @ [msg_session_finished, msg_successful successCount,
                            msg_failed_skipped failedCount, msg_all_logs demo_env]"
    using counts_add_up [OF demo_preset demo_dirs demo_candidates_nonempty,
                         unfolded demo_candidates demo_length] .
  then show ?thesis
    by (intro conjI demo_preset demo_dirs(3) demo_candidates)
qed

text \<open>
  Claim C6. When the engine conversion of a file succeeds but the probe of the target file
  fails, the iteration increments \<open>successCount\<close> and leaves \<open>failedCount\<close> alone, and what it
  logs after the timing lines is the qualified warning (\<open>SUCCESS, but failed to get target
  stats\<close>) and the closing line only.
\<close>

theorem target_probe_failure_is_success:
  assumes "ffprobe E (calls s) (inputPath E (vf ! i)) = Inr md"
    and "ffmpeg_run E (calls s @ [Ffprobe (inputPath E (vf ! i)), NewDate])
           (inputPath E (vf ! i)) (cli p) (outputPath E p (vf ! i)) = None"
    and "ffprobe E (calls s @ [Ffprobe (inputPath E (vf ! i)), NewDate,
                               Ffmpeg (inputPath E (vf ! i)) (cli p) (outputPath E p (vf ! i)),
                               NewDate])
           (outputPath E p (vf ! i)) = Inl message"
  shows "loop_body E p vf i (successCount, failedCount, s) =
           (successCount + 1, failedCount,
            s\<lparr>logged := logged s
                   @ [msg_file_start i (length vf) (vf ! i)]
                   @ stats_lines ''  Source Stats:'' (fileStats md)
                   @ [msg_start_time (new_Date E (calls s @ [Ffprobe (inputPath E (vf ! i))])),
                      msg_end_time (new_Date E (calls s @ [Ffprobe (inputPath E (vf ! i)), NewDate,
                         Ffmpeg (inputPath E (vf ! i)) (cli p) (outputPath E p (vf ! i))])),
                      msg_duration
                        (getTime (new_Date E (calls s @ [Ffprobe (inputPath E (vf ! i)), NewDate,
                           Ffmpeg (inputPath E (vf ! i)) (cli p) (outputPath E p (vf ! i))]))
                         - getTime (new_Date E (calls s @ [Ffprobe (inputPath E (vf ! i))]))),
                      msg_success_no_stats (vf ! i)
                        (''ffprobe error for '' @ outputPath E p (vf ! i) @ '': '' @ message),
                      msg_finished (vf ! i)],
              calls := calls s
                   @ [Ffprobe (inputPath E (vf ! i)), NewDate,
                      Ffmpeg (inputPath E (vf ! i)) (cli p) (outputPath E p (vf ! i)),
                      NewDate, Ffprobe (outputPath E p (vf ! i))]\<rparr>)"
  using assms
  by (simp add: loop_body_def convert_one_def getFileStats_def Let_def logInfos_eq
      logInfo_def record_call_def)

text \<open>
  Claim C6 on the sample installation: the output of \<^verbatim>\<open>c.avi\<close> cannot be probed; the third
  iteration, entered with one success and one failure, leaves with two successes.
\<close>

theorem target_probe_failure_is_success_witness:
  "ffprobe demo_env (calls initial) (inputPath demo_env (demo_files ! 2)) = Inr (demo_metadata 1536)
   \<and> ffprobe demo_env
        (calls initial @ [Ffprobe (inputPath demo_env (demo_files ! 2)), NewDate,
           Ffmpeg (inputPath demo_env (demo_files ! 2)) (cli extract_audio)
             (outputPath demo_env extract_audio (demo_files ! 2)),
           NewDate])
        (outputPath demo_env extract_audio (demo_files ! 2)) = Inl ''No such file or directory''
   \<and> fst (loop_body demo_env extract_audio demo_files 2 (1, 1, initial)) = 2
   \<and> fst (snd (loop_body demo_env extract_audio demo_files 2 (1, 1, initial))) = 1
   \<and> msg_success_no_stats ''c.avi''
        ''ffprobe error for /app/output/c.mp3: No such file or directory''
      \<in> set (logged (snd (snd (loop_body demo_env extract_audio demo_files 2 (1, 1, initial)))))"
proof -
  have f: "demo_files ! 2 = ''c.avi''" by (simp add: demo_files_def)
  have h1: "ffprobe demo_env (calls initial) (inputPath demo_env (demo_files ! 2))
              = Inr (demo_metadata 1536)"
    by (simp add: f demo_inputPath demo_probe)
  have h2: "ffmpeg_run demo_env (calls initial @ [Ffprobe (inputPath demo_env (demo_files ! 2)), NewDate])
              (inputPath demo_env (demo_files ! 2)) (cli extract_audio)
              (outputPath demo_env extract_audio (demo_files ! 2)) = None"
    by (rule demo_engine)
  have h3: "ffprobe demo_env
        (calls initial @ [Ffprobe (inputPath demo_env (demo_files ! 2)), NewDate,
           Ffmpeg (inputPath demo_env (demo_files ! 2)) (cli extract_audio)
             (outputPath demo_env extract_audio (demo_files ! 2)),
           NewDate])
        (outputPath demo_env extract_audio (demo_files ! 2)) = Inl ''No such file or directory''"
    by (simp add: f demo_outputPath demo_probe)
  show ?thesis
    using h1 h3 target_probe_failure_is_success [OF h1 h2 h3, of 1 1]
    by (simp add: f demo_outputPath)
qed

section \<open>Failures and the files after them\<close>

lemma body_engine_failure:
  assumes "ffprobe E (calls s) (inputPath E (vf ! i)) = Inr md"
    and "ffmpeg_run E (calls s @ [Ffprobe (inputPath E (vf ! i)), NewDate])
           (inputPath E (vf ! i)) (cli p) (outputPath E p (vf ! i)) = Some message"
  shows "loop_body E p vf i (successCount, failedCount, s) =
           (successCount, failedCount + 1,
            s\<lparr>logged := logged s
                   @ [msg_file_start i (length vf) (vf ! i)]
                   @ stats_lines ''  Source Stats:'' (fileStats md)
                   @ [msg_start_time (new_Date E (calls s @ [Ffprobe (inputPath E (vf ! i))])),
                      msg_end_time (new_Date E (calls s @ [Ffprobe (inputPath E (vf ! i)), NewDate,
                         Ffmpeg (inputPath E (vf ! i)) (cli p) (outputPath E p (vf ! i))])),
                      msg_duration
                        (getTime (new_Date E (calls s @ [Ffprobe (inputPath E (vf ! i)), NewDate,
                           Ffmpeg (inputPath E (vf ! i)) (cli p) (outputPath E p (vf ! i))]))
                         - getTime (new_Date E (calls s @ [Ffprobe (inputPath E (vf ! i))]))),
                      msg_failed (vf ! i) message,
                      msg_finished (vf ! i)],
              calls := calls s
                   @ [Ffprobe (inputPath E (vf ! i)), NewDate,
                      Ffmpeg (inputPath E (vf ! i)) (cli p) (outputPath E p (vf ! i)),
                      NewDate]\<rparr>)"
  using assms
  by (simp add: loop_body_def convert_one_def getFileStats_def Let_def logInfos_eq
      logInfo_def record_call_def)

lemma body_engine_success:
  assumes "ffprobe E (calls s) (inputPath E (vf ! i)) = Inr md"
    and "ffmpeg_run E (calls s @ [Ffprobe (inputPath E (vf ! i)), NewDate])
           (inputPath E (vf ! i)) (cli p) (outputPath E p (vf ! i)) = None"
  shows "fst (loop_body E p vf i (successCount, failedCount, s)) = successCount + 1
       \<and> fst (snd (loop_body E p vf i (successCount, failedCount, s))) = failedCount
       \<and> calls (snd (snd (loop_body E p vf i (successCount, failedCount, s))))
           = calls s
               @ [Ffprobe (inputPath E (vf ! i)), NewDate,
                  Ffmpeg (inputPath E (vf ! i)) (cli p) (outputPath E p (vf ! i)),
                  NewDate, Ffprobe (outputPath E p (vf ! i))]"
  using assms
  by (simp add: loop_body_def convert_one_def getFileStats_def Let_def logInfos_eq
      logInfo_def record_call_def split: sum.split)

lemma body_engine_called:
  assumes "ffprobe E (calls (snd (snd acc))) (inputPath E (vf ! i)) = Inr md"
  shows "Ffmpeg (inputPath E (vf ! i)) (cli p) (outputPath E p (vf ! i))
           \<in> set (calls (snd (snd (loop_body E p vf i acc))))"
  using assms
  by (cases acc)
     (simp add: loop_body_def convert_one_def getFileStats_def Let_def logInfos_eq
        logInfo_def record_call_def split: sum.split option.split)

lemma loop_step:
  "i < length vf \<Longrightarrow> loop E p vf i acc = loop E p vf (Suc i) (loop_body E p vf i acc)"
  by (subst loop.simps) simp

lemma loop_is_foldl:
  "loop E p vf i acc = foldl (\<lambda>acc i. loop_body E p vf i acc) acc [i..<length vf]"
proof (induction E p vf i acc rule: loop.induct)
  case (1 E p vf i acc)
  show ?case
  proof (cases "i < length vf")
    case True
    with 1 show ?thesis
      by (simp add: loop_step upt_conv_Cons)
  next
    case False
    then show ?thesis by (subst loop.simps) simp
  qed
qed

lemma loop_is_after_jobs: "loop E p vf 0 acc = after_jobs E p vf acc (length vf)"
  by (simp add: loop_is_foldl after_jobs_def)

lemma after_jobs_Suc:
  "after_jobs E p vf acc (Suc k) = loop_body E p vf k (after_jobs E p vf acc k)"
  by (simp add: after_jobs_def)

lemma after_jobs_calls_grow:
  "k \<le> m \<Longrightarrow>
     set (calls (snd (snd (after_jobs E p vf acc k))))
       \<subseteq> set (calls (snd (snd (after_jobs E p vf acc m))))"
proof (induction m)
  case 0
  then show ?case by simp
next
  case (Suc m)
  show ?case
  proof (cases "k = Suc m")
    case True
    then show ?thesis by simp
  next
    case False
    with Suc.prems have "k \<le> m" by simp
    moreover obtain l c where
      "calls (snd (snd (loop_body E p vf m (after_jobs E p vf acc m))))
         = calls (snd (snd (after_jobs E p vf acc m)))
             @ Ffprobe (inputPath E (vf ! m)) # c"
      using loop_body_extends by blast
    ultimately show ?thesis
      using Suc.IH by (auto simp: after_jobs_Suc)
  qed
qed

lemma engine_failure_dirs:
  "fs_mkdir engine_failure_env [] (inputDir engine_failure_env) = None"
  "fs_mkdir engine_failure_env [Mkdir (inputDir engine_failure_env)]
     (outputDir engine_failure_env) = None"
  "fs_readdir engine_failure_env
     [Mkdir (inputDir engine_failure_env), Mkdir (outputDir engine_failure_env)]
     (inputDir engine_failure_env) = Inr [''a.mp4'', ''notes.txt'', ''b.MKV'', ''c.avi'']"
  by (simp_all add: engine_failure_env_def demo_env_def)

lemma engine_failure_inputPath: "inputPath engine_failure_env f = ''/app/input/'' @ f"
  by (simp add: inputPath_def inputDir_def path_join_def engine_failure_env_def demo_env_def)

lemma demo_outputName:
  "outputName extract_audio ''a.mp4'' = ''a.mp3''"
  "outputName extract_audio ''c.avi'' = ''c.mp3''"
  by code_simp+

lemma engine_failure_outputPath:
  "outputPath engine_failure_env extract_audio ''a.mp4'' = ''/app/output/a.mp3''"
  "outputPath engine_failure_env extract_audio ''c.avi'' = ''/app/output/c.mp3''"
  by (simp_all add: outputPath_def outputDir_def path_join_def engine_failure_env_def
      demo_env_def demo_outputName)

lemma engine_failure_probe:
  "ffprobe engine_failure_env h ''/app/input/a.mp4'' = Inr (demo_metadata 0)"
  "ffprobe engine_failure_env h ''/app/input/b.MKV''
     = Inl ''Invalid data found when processing input''"
  "ffprobe engine_failure_env h ''/app/input/c.avi'' = Inr (demo_metadata 1536)"
  by (simp_all add: engine_failure_env_def demo_env_def)

lemma engine_failure_engine:
  "ffmpeg_run engine_failure_env h ''/app/input/a.mp4'' options output = Some ''Conversion failed!''"
  "ffmpeg_run engine_failure_env h ''/app/input/c.avi'' options output = None"
  by (simp_all add: engine_failure_env_def)

lemma extract_audio_cli:
  "cli extract_audio = Some [''-vn'', ''-c:a'', ''libmp3lame'', ''-q:a'', ''2'']"
  by (simp add: extract_audio_def)

text \<open>
  Claim C7. When the source-stats probe of a candidate fails, the iteration counts the file
  as failed, logs the error and the skip line, makes no call to the engine (its only call
  is the probe) and the loop goes on with the next index. A failed conversion is counted
  and logged in the same way, and the loop goes on as well. Nothing an earlier file did
  changes what happens to a later one: whatever the counters and the state are when a file
  is reached, a successful source probe is followed by the engine run, and a successful
  engine run by the target probe and one more success; the loop always steps from an
  index to the next; the run is the loop body applied to every candidate in turn, followed
  by the summary; and every candidate is started and probed in the run, and converted if
  its own source probe succeeds.
\<close>

theorem probe_failure_skips_and_run_continues:
  assumes "get_preset presetName = Some p"
    and "fs_mkdir E [] (inputDir E) = None"
    and "fs_mkdir E [Mkdir (inputDir E)] (outputDir E) = None"
    and "fs_readdir E [Mkdir (inputDir E), Mkdir (outputDir E)] (inputDir E) = Inr files"
    and "filter is_video files = videoFiles"
    and "videoFiles \<noteq> []"
  shows "(\<forall>i successCount failedCount (s::state) message.
            i < length videoFiles \<longrightarrow>
            ffprobe E (calls s) (inputPath E (videoFiles ! i)) = Inl message \<longrightarrow>
            loop E p videoFiles i (successCount, failedCount, s) =
              loop E p videoFiles (Suc i)
                (successCount, failedCount + 1,
                 s\<lparr>logged := logged s
                        @ [msg_file_start i (length videoFiles) (videoFiles ! i),
                           msg_probe_error (videoFiles ! i)
                             (''ffprobe error for '' @ inputPath E (videoFiles ! i)
                                @ '': '' @ message),
                           msg_skipping (videoFiles ! i)],
                    calls := calls s @ [Ffprobe (inputPath E (videoFiles ! i))]\<rparr>))
       \<and> (\<forall>i successCount failedCount (s::state) md message.
            i < length videoFiles \<longrightarrow>
            ffprobe E (calls s) (inputPath E (videoFiles ! i)) = Inr md \<longrightarrow>
            ffmpeg_run E (calls s @ [Ffprobe (inputPath E (videoFiles ! i)), NewDate])
              (inputPath E (videoFiles ! i)) (cli p) (outputPath E p (videoFiles ! i))
              = Some message \<longrightarrow>
            loop E p videoFiles i (successCount, failedCount, s) =
              loop E p videoFiles (Suc i)
                (successCount, failedCount + 1,
                 s\<lparr>logged := logged s
                        @ [msg_file_start i (length videoFiles) (videoFiles ! i)]
                        @ stats_lines ''  Source Stats:'' (fileStats md)
                        @ [msg_start_time
                             (new_Date E (calls s @ [Ffprobe (inputPath E (videoFiles ! i))])),
                           msg_end_time
                             (new_Date E (calls s @ [Ffprobe (inputPath E (videoFiles ! i)), NewDate,
                                Ffmpeg (inputPath E (videoFiles ! i)) (cli p)
                                  (outputPath E p (videoFiles ! i))])),
                           msg_duration
                             (getTime (new_Date E (calls s @ [Ffprobe (inputPath E (videoFiles ! i)),
                                NewDate,
                                Ffmpeg (inputPath E (videoFiles ! i)) (cli p)
                                  (outputPath E p (videoFiles ! i))]))
                              - getTime (new_Date E
                                  (calls s @ [Ffprobe (inputPath E (videoFiles ! i))]))),
                           msg_failed (videoFiles ! i) message,
                           msg_finished (videoFiles ! i)],
                    calls := calls s
                        @ [Ffprobe (inputPath E (videoFiles ! i)), NewDate,
                           Ffmpeg (inputPath E (videoFiles ! i)) (cli p)
                             (outputPath E p (videoFiles ! i)),
                           NewDate]\<rparr>))
       \<and> (\<forall>i successCount failedCount (s::state) md.
            i < length videoFiles \<longrightarrow>
            ffprobe E (calls s) (inputPath E (videoFiles ! i)) = Inr md \<longrightarrow>
            ffmpeg_run E (calls s @ [Ffprobe (inputPath E (videoFiles ! i)), NewDate])
              (inputPath E (videoFiles ! i)) (cli p) (outputPath E p (videoFiles ! i))
              = None \<longrightarrow>
            fst (loop_body E p videoFiles i (successCount, failedCount, s)) = successCount + 1
            \<and> fst (snd (loop_body E p videoFiles i (successCount, failedCount, s))) = failedCount
            \<and> calls (snd (snd (loop_body E p videoFiles i (successCount, failedCount, s))))
                = calls s
                    @ [Ffprobe (inputPath E (videoFiles ! i)), NewDate,
                       Ffmpeg (inputPath E (videoFiles ! i)) (cli p)
                         (outputPath E p (videoFiles ! i)),
                       NewDate, Ffprobe (outputPath E p (videoFiles ! i))])
       \<and> (\<forall>i acc. i < length videoFiles \<longrightarrow>
            loop E p videoFiles i acc = loop E p videoFiles (Suc i) (loop_body E p videoFiles i acc))
       \<and> convertVideos E presetName =
           (case after_jobs E p videoFiles (loop_start E presetName (length videoFiles))
                   (length videoFiles) of
              (successCount, failedCount, s) \<Rightarrow>
                (SessionFinished successCount failedCount,
                 logInfos [msg_session_finished, msg_successful successCount,
                           msg_failed_skipped failedCount, msg_all_logs E] s))
       \<and> (\<forall>i < length videoFiles.
            msg_file_start i (length videoFiles) (videoFiles ! i)
              \<in> set (logged (snd (convertVideos E presetName)))
            \<and> Ffprobe (inputPath E (videoFiles ! i))
              \<in> set (calls (snd (convertVideos E presetName))))
       \<and> (\<forall>i md. i < length videoFiles \<longrightarrow>
            ffprobe E
              (calls (snd (snd (after_jobs E p videoFiles
                                  (loop_start E presetName (length videoFiles)) i))))
              (inputPath E (videoFiles ! i)) = Inr md \<longrightarrow>
            Ffmpeg (inputPath E (videoFiles ! i)) (cli p) (outputPath E p (videoFiles ! i))
              \<in> set (calls (snd (convertVideos E presetName))))"
proof -
  let ?vf = videoFiles
  let ?start = "loop_start E presetName (length ?vf)"
  have ne: "filter is_video files \<noteq> []"
    using assms(5,6) by simp
  note reach = convertVideos_reaches_loop [OF assms(1-4) ne, unfolded assms(5)]
  note final = convertVideos_final_state [OF assms(1-4) ne, unfolded assms(5)]
  have final_calls:
    "calls (snd (convertVideos E presetName))
       = calls (snd (snd (after_jobs E p ?vf ?start (length ?vf))))"
    using final(2) by (simp add: loop_is_after_jobs)
  have skip: "\<forall>i successCount failedCount (s::state) message.
            i < length ?vf \<longrightarrow>
            ffprobe E (calls s) (inputPath E (?vf ! i)) = Inl message \<longrightarrow>
            loop E p ?vf i (successCount, failedCount, s) =
              loop E p ?vf (Suc i)
                (successCount, failedCount + 1,
                 s\<lparr>logged := logged s
                        @ [msg_file_start i (length ?vf) (?vf ! i),
                           msg_probe_error (?vf ! i)
                             (''ffprobe error for '' @ inputPath E (?vf ! i) @ '': '' @ message),
                           msg_skipping (?vf ! i)],
                    calls := calls s @ [Ffprobe (inputPath E (?vf ! i))]\<rparr>)"
    by (simp add: loop_step body_source_probe_failure)
  have fail: "\<forall>i successCount failedCount (s::state) md message.
            i < length ?vf \<longrightarrow>
            ffprobe E (calls s) (inputPath E (?vf ! i)) = Inr md \<longrightarrow>
            ffmpeg_run E (calls s @ [Ffprobe (inputPath E (?vf ! i)), NewDate])
              (inputPath E (?vf ! i)) (cli p) (outputPath E p (?vf ! i)) = Some message \<longrightarrow>
            loop E p ?vf i (successCount, failedCount, s) =
              loop E p ?vf (Suc i)
                (successCount, failedCount + 1,
                 s\<lparr>logged := logged s
                        @ [msg_file_start i (length ?vf) (?vf ! i)]
                        @ stats_lines ''  Source Stats:'' (fileStats md)
                        @ [msg_start_time (new_Date E (calls s @ [Ffprobe (inputPath E (?vf ! i))])),
                           msg_end_time
                             (new_Date E (calls s @ [Ffprobe (inputPath E (?vf ! i)), NewDate,
                                Ffmpeg (inputPath E (?vf ! i)) (cli p) (outputPath E p (?vf ! i))])),
                           msg_duration
                             (getTime (new_Date E (calls s @ [Ffprobe (inputPath E (?vf ! i)),
                                NewDate,
                                Ffmpeg (inputPath E (?vf ! i)) (cli p) (outputPath E p (?vf ! i))]))
                              - getTime (new_Date E (calls s @ [Ffprobe (inputPath E (?vf ! i))]))),
                           msg_failed (?vf ! i) message,
                           msg_finished (?vf ! i)],
                    calls := calls s
                        @ [Ffprobe (inputPath E (?vf ! i)), NewDate,
                           Ffmpeg (inputPath E (?vf ! i)) (cli p) (outputPath E p (?vf ! i)),
                           NewDate]\<rparr>)"
    by (simp add: loop_step body_engine_failure)
  have succeed: "\<forall>i successCount failedCount (s::state) md.
            i < length ?vf \<longrightarrow>
            ffprobe E (calls s) (inputPath E (?vf ! i)) = Inr md \<longrightarrow>
            ffmpeg_run E (calls s @ [Ffprobe (inputPath E (?vf ! i)), NewDate])
              (inputPath E (?vf ! i)) (cli p) (outputPath E p (?vf ! i)) = None \<longrightarrow>
            fst (loop_body E p ?vf i (successCount, failedCount, s)) = successCount + 1
            \<and> fst (snd (loop_body E p ?vf i (successCount, failedCount, s))) = failedCount
            \<and> calls (snd (snd (loop_body E p ?vf i (successCount, failedCount, s))))
                = calls s
                    @ [Ffprobe (inputPath E (?vf ! i)), NewDate,
                       Ffmpeg (inputPath E (?vf ! i)) (cli p) (outputPath E p (?vf ! i)),
                       NewDate, Ffprobe (outputPath E p (?vf ! i))]"
    using body_engine_success by blast
  have step: "\<forall>i acc. i < length ?vf \<longrightarrow>
            loop E p ?vf i acc = loop E p ?vf (Suc i) (loop_body E p ?vf i acc)"
    by (simp add: loop_step)
  have run: "convertVideos E presetName =
           (case after_jobs E p ?vf ?start (length ?vf) of
              (successCount, failedCount, s) \<Rightarrow>
                (SessionFinished successCount failedCount,
                 logInfos [msg_session_finished, msg_successful successCount,
                           msg_failed_skipped failedCount, msg_all_logs E] s))"
    using reach by (simp only: loop_is_after_jobs)
  have visit: "\<forall>i < length ?vf.
            msg_file_start i (length ?vf) (?vf ! i) \<in> set (logged (snd (convertVideos E presetName)))
            \<and> Ffprobe (inputPath E (?vf ! i)) \<in> set (calls (snd (convertVideos E presetName)))"
  proof (intro allI impI)
    fix i assume i: "i < length ?vf"
    from final obtain l where
      "logged (snd (convertVideos E presetName))
         = logged (snd (snd (loop E p ?vf 0 ?start))) @ l"
      "calls (snd (convertVideos E presetName)) = calls (snd (snd (loop E p ?vf 0 ?start)))"
      by blast
    with loop_visits_every_file [of 0 i ?vf E p ?start] i
    show "msg_file_start i (length ?vf) (?vf ! i) \<in> set (logged (snd (convertVideos E presetName)))
        \<and> Ffprobe (inputPath E (?vf ! i)) \<in> set (calls (snd (convertVideos E presetName)))"
      by simp
  qed
  have converted: "\<forall>i md. i < length ?vf \<longrightarrow>
            ffprobe E (calls (snd (snd (after_jobs E p ?vf ?start i)))) (inputPath E (?vf ! i))
              = Inr md \<longrightarrow>
            Ffmpeg (inputPath E (?vf ! i)) (cli p) (outputPath E p (?vf ! i))
              \<in> set (calls (snd (convertVideos E presetName)))"
  proof (intro allI impI)
    fix i md
    assume i: "i < length ?vf"
      and pr: "ffprobe E (calls (snd (snd (after_jobs E p ?vf ?start i)))) (inputPath E (?vf ! i))
                 = Inr md"
    from body_engine_called [OF pr]
    have "Ffmpeg (inputPath E (?vf ! i)) (cli p) (outputPath E p (?vf ! i))
            \<in> set (calls (snd (snd (after_jobs E p ?vf ?start (Suc i)))))"
      by (simp add: after_jobs_Suc)
    moreover from i have "Suc i \<le> length ?vf" by simp
    ultimately show "Ffmpeg (inputPath E (?vf ! i)) (cli p) (outputPath E p (?vf ! i))
            \<in> set (calls (snd (convertVideos E presetName)))"
      using after_jobs_calls_grow [of "Suc i" "length ?vf" E p ?vf ?start]
      by (auto simp: final_calls)
  qed
  from skip fail succeed step run visit converted show ?thesis
    by (intro conjI)
qed

text \<open>
  Claim C7 on the sample installation with a failing conversion: the conversion of
  \<^verbatim>\<open>a.mp4\<close> fails and \<^verbatim>\<open>b.MKV\<close> cannot be probed; each time the loop goes on with one more
  failure, and \<^verbatim>\<open>c.avi\<close>, reached with two failures, is started, probed and converted.
\<close>

theorem probe_failure_skips_and_run_continues_witness:
  "ffmpeg_run engine_failure_env [Ffprobe ''/app/input/a.mp4'', NewDate] ''/app/input/a.mp4''
     (cli extract_audio) ''/app/output/a.mp3'' = Some ''Conversion failed!''
   \<and> loop engine_failure_env extract_audio demo_files 0 (0, 0, initial) =
       loop engine_failure_env extract_audio demo_files 1
         (0, 1,
          \<lparr>logged =
             msg_file_start 0 3 ''a.mp4''
             # stats_lines ''  Source Stats:'' (fileStats (demo_metadata 0))
             @ [msg_start_time (new_Date engine_failure_env [Ffprobe ''/app/input/a.mp4'']),
                msg_end_time
                  (new_Date engine_failure_env
                     [Ffprobe ''/app/input/a.mp4'', NewDate,
                      Ffmpeg ''/app/input/a.mp4'' (cli extract_audio) ''/app/output/a.mp3'']),
                msg_duration
                  (getTime
                     (new_Date engine_failure_env
                        [Ffprobe ''/app/input/a.mp4'', NewDate,
                         Ffmpeg ''/app/input/a.mp4'' (cli extract_audio) ''/app/output/a.mp3''])
                   - getTime (new_Date engine_failure_env [Ffprobe ''/app/input/a.mp4''])),
                msg_failed ''a.mp4'' ''Conversion failed!'',
                msg_finished ''a.mp4''],
           calls = [Ffprobe ''/app/input/a.mp4'', NewDate,
                    Ffmpeg ''/app/input/a.mp4'' (cli extract_audio) ''/app/output/a.mp3'',
                    NewDate]\<rparr>)
   \<and> ffprobe engine_failure_env [] ''/app/input/b.MKV''
        = Inl ''Invalid data found when processing input''
   \<and> loop engine_failure_env extract_audio demo_files 1 (0, 1, initial) =
       loop engine_failure_env extract_audio demo_files 2
         (0, 2,
          \<lparr>logged = [msg_file_start 1 3 ''b.MKV'',
                     msg_probe_error ''b.MKV''
                       ''ffprobe error for /app/input/b.MKV: Invalid data found when processing input'',
                     msg_skipping ''b.MKV''],
           calls = [Ffprobe ''/app/input/b.MKV'']\<rparr>)
   \<and> fst (loop_body engine_failure_env extract_audio demo_files 2 (0, 2, initial)) = 1
   \<and> fst (snd (loop_body engine_failure_env extract_audio demo_files 2 (0, 2, initial))) = 2
   \<and> calls (snd (snd (loop_body engine_failure_env extract_audio demo_files 2 (0, 2, initial))))
       = [Ffprobe ''/app/input/c.avi'', NewDate,
          Ffmpeg ''/app/input/c.avi'' (cli extract_audio) ''/app/output/c.mp3'',
          NewDate, Ffprobe ''/app/output/c.mp3'']
   \<and> msg_file_start 2 3 ''c.avi''
       \<in> set (logged (snd (convertVideos engine_failure_env ''extract_audio'')))
   \<and> Ffprobe ''/app/input/c.avi''
       \<in> set (calls (snd (convertVideos engine_failure_env ''extract_audio'')))
   \<and> Ffmpeg ''/app/input/c.avi'' (cli extract_audio) ''/app/output/c.mp3''
       \<in> set (calls (snd (convertVideos engine_failure_env ''extract_audio'')))"
proof -
  have ne: "demo_files \<noteq> []" by (simp add: demo_files_def)
  note T = probe_failure_skips_and_run_continues
             [OF demo_preset engine_failure_dirs demo_candidates ne, unfolded demo_length]
  note skip = T [THEN conjunct1, rule_format]
  note fail = T [THEN conjunct2, THEN conjunct1, rule_format]
  note succeed = T [THEN conjunct2, THEN conjunct2, THEN conjunct1, rule_format]
  note visit = T [THEN conjunct2, THEN conjunct2, THEN conjunct2, THEN conjunct2,
                  THEN conjunct2, THEN conjunct1, rule_format]
  note converted = T [THEN conjunct2, THEN conjunct2, THEN conjunct2, THEN conjunct2,
                      THEN conjunct2, THEN conjunct2, rule_format]
  have f: "demo_files ! 0 = ''a.mp4''" "demo_files ! Suc 0 = ''b.MKV''" "demo_files ! 2 = ''c.avi''"
    by (simp_all add: demo_files_def)
  have h0: "ffmpeg_run engine_failure_env [Ffprobe ''/app/input/a.mp4'', NewDate]
              ''/app/input/a.mp4'' (cli extract_audio) ''/app/output/a.mp3''
            = Some ''Conversion failed!''"
    by (rule engine_failure_engine)
  have h1: "ffprobe engine_failure_env [] ''/app/input/b.MKV''
              = Inl ''Invalid data found when processing input''"
    by (rule engine_failure_probe)
  have a: "loop engine_failure_env extract_audio demo_files 0 (0, 0, initial) =
       loop engine_failure_env extract_audio demo_files 1
         (0, 1,
          \<lparr>logged =
             msg_file_start 0 3 ''a.mp4''
             # stats_lines ''  Source Stats:'' (fileStats (demo_metadata 0))
             @ [msg_start_time (new_Date engine_failure_env [Ffprobe ''/app/input/a.mp4'']),
                msg_end_time
                  (new_Date engine_failure_env
                     [Ffprobe ''/app/input/a.mp4'', NewDate,
                      Ffmpeg ''/app/input/a.mp4'' (cli extract_audio) ''/app/output/a.mp3'']),
                msg_duration
                  (getTime
                     (new_Date engine_failure_env
                        [Ffprobe ''/app/input/a.mp4'', NewDate,
                         Ffmpeg ''/app/input/a.mp4'' (cli extract_audio) ''/app/output/a.mp3''])
                   - getTime (new_Date engine_failure_env [Ffprobe ''/app/input/a.mp4''])),
                msg_failed ''a.mp4'' ''Conversion failed!'',
                msg_finished ''a.mp4''],
           calls = [Ffprobe ''/app/input/a.mp4'', NewDate,
                    Ffmpeg ''/app/input/a.mp4'' (cli extract_audio) ''/app/output/a.mp3'',
                    NewDate]\<rparr>)"
    using fail [where i = 0 and s = initial and successCount = 0 and failedCount = 0
                  and md = "demo_metadata 0" and message = "''Conversion failed!''"]
    by (simp add: f engine_failure_inputPath engine_failure_outputPath engine_failure_probe
        engine_failure_engine initial_def)
  have b: "loop engine_failure_env extract_audio demo_files 1 (0, 1, initial) =
       loop engine_failure_env extract_audio demo_files 2
         (0, 2,
          \<lparr>logged = [msg_file_start 1 3 ''b.MKV'',
                     msg_probe_error ''b.MKV''
                       ''ffprobe error for /app/input/b.MKV: Invalid data found when processing input'',
                     msg_skipping ''b.MKV''],
           calls = [Ffprobe ''/app/input/b.MKV'']\<rparr>)"
    using skip [where i = 1 and s = initial and successCount = 0 and failedCount = 1
                  and message = "''Invalid data found when processing input''"]
    by (simp add: f engine_failure_inputPath engine_failure_probe initial_def numeral_2_eq_2)
  have c: "fst (loop_body engine_failure_env extract_audio demo_files 2 (0, 2, initial)) = 1
   \<and> fst (snd (loop_body engine_failure_env extract_audio demo_files 2 (0, 2, initial))) = 2
   \<and> calls (snd (snd (loop_body engine_failure_env extract_audio demo_files 2 (0, 2, initial))))
       = [Ffprobe ''/app/input/c.avi'', NewDate,
          Ffmpeg ''/app/input/c.avi'' (cli extract_audio) ''/app/output/c.mp3'',
          NewDate, Ffprobe ''/app/output/c.mp3'']"
    using succeed [where i = 2 and s = initial and successCount = 0 and failedCount = 2
                     and md = "demo_metadata 1536"]
    by (simp add: f engine_failure_inputPath engine_failure_outputPath engine_failure_probe
        engine_failure_engine initial_def)
  have d: "msg_file_start 2 3 ''c.avi''
       \<in> set (logged (snd (convertVideos engine_failure_env ''extract_audio'')))
   \<and> Ffprobe ''/app/input/c.avi''
       \<in> set (calls (snd (convertVideos engine_failure_env ''extract_audio'')))"
    using visit [of 2] by (simp add: f engine_failure_inputPath)
  have e: "Ffmpeg ''/app/input/c.avi'' (cli extract_audio) ''/app/output/c.mp3''
       \<in> set (calls (snd (convertVideos engine_failure_env ''extract_audio'')))"
    using converted [where i = 2 and md = "demo_metadata 1536"]
    by (simp add: f engine_failure_inputPath engine_failure_outputPath engine_failure_probe)
  show ?thesis
    using h0 a h1 b c d e by (intro conjI) simp_all
qed

section \<open>Size change\<close>




section \<open>Early returns\<close>

lemma convertVideos_no_videos:
  assumes "get_preset presetName = Some p"
    and "fs_mkdir E [] (inputDir E) = None"
    and "fs_mkdir E [Mkdir (inputDir E)] (outputDir E) = None"
    and "fs_readdir E [Mkdir (inputDir E), Mkdir (outputDir E)] (inputDir E) = Inr files"
    and "filter is_video files = []"
  shows "convertVideos E presetName =
           (NoVideoFiles,
            \<lparr>logged = [msg_start presetName, msg_no_files],
             calls = [Mkdir (inputDir E), Mkdir (outputDir E), Readdir (inputDir E)]\<rparr>)"
proof -
  let ?s0 = "logInfo (msg_start presetName) initial"
  have "calls ?s0 = []" by (simp add: initial_def)
  note dirs = prepare_dirs_ok [OF assms(2-4) this]
  have "convertVideos E presetName =
      (NoVideoFiles,
       logInfo msg_no_files
         (?s0\<lparr>calls := [Mkdir (inputDir E), Mkdir (outputDir E), Readdir (inputDir E)]\<rparr>))"
    using assms(1,5) by (simp add: convertVideos_def Let_def dirs)
  then show ?thesis by (simp add: logInfo_def initial_def)
qed

lemma convertVideos_unknown_preset:
  assumes "get_preset presetName = None"
  shows "convertVideos E presetName =
           (PresetNotFound,
            \<lparr>logged = [msg_start presetName, msg_preset_not_found presetName, msg_available],
             calls = []\<rparr>)"
  using assms
  by (simp add: convertVideos_def Let_def logInfos_eq logInfo_def initial_def)

lemma msg_start_differs:
  "msg_start presetName \<noteq> msg_no_files"
  "msg_start presetName \<noteq> msg_preset_not_found presetName"
  "msg_start presetName \<noteq> msg_available"
  "msg_start presetName \<noteq> msg_successful n"
  "msg_start presetName \<noteq> msg_failed_skipped n"
  by (simp_all add: msg_start_def msg_no_files_def msg_preset_not_found_def msg_available_def
      msg_successful_def msg_failed_skipped_def ROCKET_def YELLOW_def CROSS_def)

lemma msg_no_files_differs:
  "msg_no_files \<noteq> msg_successful n"
  "msg_no_files \<noteq> msg_failed_skipped n"
  by (simp_all add: msg_no_files_def msg_successful_def msg_failed_skipped_def YELLOW_def)

text \<open>
  Claim C3, as stated: with zero candidates the run returns a summary reporting zero
  successes and zero failures. On the sample installation without video files the run
  ends at the early return: it is not a finished session with counters 0 and 0, and neither
  summary line is logged.
\<close>

theorem no_video_files_no_summary:
  "fst (convertVideos no_video_env ''extract_audio'') \<noteq> SessionFinished 0 0
   \<and> msg_successful 0 \<notin> set (logged (snd (convertVideos no_video_env ''extract_audio'')))
   \<and> msg_failed_skipped 0 \<notin> set (logged (snd (convertVideos no_video_env ''extract_audio'')))"
  by (simp add: convertVideos_no_videos [OF demo_preset no_video_dirs no_video_candidates]
      msg_start_differs [symmetric] msg_no_files_differs [symmetric])

text \<open>
  Claim C3, amended: for every run in which the preset is found, the directories exist and
  the input directory contains zero candidate video files, the run ends at an early return
  without any summary and without any probe or engine call: exactly two messages are
  logged, the session-start line and the "no video files found" message, the latter
  exactly once.
\<close>

theorem no_video_files_early_return:
  assumes "get_preset presetName = Some p"
    and "fs_mkdir E [] (inputDir E) = None"
    and "fs_mkdir E [Mkdir (inputDir E)] (outputDir E) = None"
    and "fs_readdir E [Mkdir (inputDir E), Mkdir (outputDir E)] (inputDir E) = Inr files"
    and "filter is_video files = []"
  shows "convertVideos E presetName =
           (NoVideoFiles,
            \<lparr>logged = [msg_start presetName, msg_no_files],
             calls = [Mkdir (inputDir E), Mkdir (outputDir E), Readdir (inputDir E)]\<rparr>)
         \<and> count_list (logged (snd (convertVideos E presetName))) msg_no_files = 1"
  by (simp add: convertVideos_no_videos [OF assms] msg_start_differs)

text \<open>Claim C3, amended, on the sample installation without video files.\<close>

theorem no_video_files_early_return_witness:
  "get_preset ''extract_audio'' = Some extract_audio
   \<and> filter is_video [''notes.txt''] = []
   \<and> convertVideos no_video_env ''extract_audio'' =
       (NoVideoFiles,
        \<lparr>logged = [msg_start ''extract_audio'', msg_no_files],
         calls = [Mkdir ''/app/input'', Mkdir ''/app/output'', Readdir ''/app/input'']\<rparr>)
   \<and> count_list (logged (snd (convertVideos no_video_env ''extract_audio''))) msg_no_files = 1"
proof -
  note T = no_video_files_early_return [OF demo_preset no_video_dirs no_video_candidates]
  from T have "convertVideos no_video_env ''extract_audio'' =
       (NoVideoFiles,
        \<lparr>logged = [msg_start ''extract_audio'', msg_no_files],
         calls = [Mkdir ''/app/input'', Mkdir ''/app/output'', Readdir ''/app/input'']\<rparr>)"
    by (simp add: demo_dir_names)
  with T show ?thesis
    by (intro conjI demo_preset no_video_candidates) simp_all
qed

lemma nope_preset: "get_preset ''nope'' = None"
  by (simp add: get_preset_def PRESETS_def Object_prototype_names_def)

lemma toString_preset: "get_preset ''toString'' = Some \<lparr>cli = None, outputExtension = None\<rparr>"
  by (simp add: get_preset_def PRESETS_def Object_prototype_names_def)

text \<open>
  Claim C4, as stated: for a preset name absent from the registry nothing but the error
  is logged and no directory is touched. For the name \<^verbatim>\<open>nope\<close> the first of the three
  entries logged is the session-start line, which is neither the error line nor the list
  of presets. And the name \<^verbatim>\<open>toString\<close>, which is no key of the registry either, is
  found by the property read through \<^verbatim>\<open>Object.prototype\<close>: that run creates the input
  directory and probes the first candidate.
\<close>

theorem unknown_preset_logs_start_line:
  "''nope'' \<notin> set (Object_keys PRESETS)
   \<and> logged (snd (convertVideos demo_env ''nope''))
       = [msg_start ''nope'', msg_preset_not_found ''nope'', msg_available]
   \<and> msg_start ''nope'' \<noteq> msg_preset_not_found ''nope''
   \<and> msg_start ''nope'' \<noteq> msg_available
   \<and> ''toString'' \<notin> set (Object_keys PRESETS)
   \<and> Mkdir ''/app/input'' \<in> set (calls (snd (convertVideos demo_env ''toString'')))
   \<and> Ffprobe ''/app/input/a.mp4'' \<in> set (calls (snd (convertVideos demo_env ''toString'')))"
proof -
  let ?p = "\<lparr>cli = None, outputExtension = None\<rparr>"
  let ?acc = "loop_start demo_env ''toString'' (length demo_files)"
  have keys: "''nope'' \<notin> set (Object_keys PRESETS)" "''toString'' \<notin> set (Object_keys PRESETS)"
    by (simp_all add: Object_keys_def PRESETS_def)
  have run: "calls (snd (convertVideos demo_env ''toString''))
               = calls (snd (snd (loop demo_env ?p demo_files 0 ?acc)))"
    using convertVideos_final_state(2)
            [OF toString_preset demo_dirs demo_candidates_nonempty, unfolded demo_candidates] .
  obtain l c where
    "calls (snd (snd (loop demo_env ?p demo_files 0 ?acc))) = calls (snd (snd ?acc)) @ c"
    using loop_extends by blast
  then have mk: "Mkdir ''/app/input'' \<in> set (calls (snd (convertVideos demo_env ''toString'')))"
    by (simp add: run loop_start_def demo_dir_names)
  have "Ffprobe (inputPath demo_env (demo_files ! 0))
          \<in> set (calls (snd (snd (loop demo_env ?p demo_files 0 ?acc))))"
    using loop_visits_every_file [of 0 0 demo_files demo_env ?p ?acc]
    by (simp add: demo_files_def)
  then have pr: "Ffprobe ''/app/input/a.mp4''
                   \<in> set (calls (snd (convertVideos demo_env ''toString'')))"
    by (simp add: run demo_inputPath demo_files_def)
  show ?thesis
    using keys mk pr
    by (simp add: convertVideos_unknown_preset [OF nope_preset] msg_start_differs)
qed

text \<open>
  Claim C4, amended: for every run invoked with a preset name for which the property read
  \<^verbatim>\<open>PRESETS[presetName]\<close> yields nothing (the name is neither a key of the registry nor a
  member inherited from \<^verbatim>\<open>Object.prototype\<close>), no directory is created or listed and no
  per-file job runs (the trace of outside calls is empty), and exactly three entries are
  logged: the session-start line, the error line naming the preset, and the line naming
  all available presets.
\<close>

theorem unknown_preset_three_log_entries:
  assumes "get_preset presetName = None"
  shows "convertVideos E presetName =
           (PresetNotFound,
            \<lparr>logged = [msg_start presetName, msg_preset_not_found presetName, msg_available],
             calls = []\<rparr>)
         \<and> msg_available
             = ''Available presets: conv0_5, conv0_25s, conv256s, web_h264, extract_audio''"
  by (simp add: convertVideos_unknown_preset [OF assms])
     (simp add: msg_available_def Object_keys_def PRESETS_def)

text \<open>Claim C4, amended, for the name \<^verbatim>\<open>nope\<close> on the sample installation.\<close>

theorem unknown_preset_three_log_entries_witness:
  "get_preset ''nope'' = None
   \<and> convertVideos demo_env ''nope'' =
       (PresetNotFound,
        \<lparr>logged = [msg_start ''nope'', msg_preset_not_found ''nope'', msg_available],
         calls = []\<rparr>)
   \<and> msg_available = ''Available presets: conv0_5, conv0_25s, conv256s, web_h264, extract_audio''"
  using unknown_preset_three_log_entries [OF nope_preset, of demo_env] nope_preset
  by simp

section \<open>Output names\<close>

lemma name_ext_split: "parse_name f @ extname f = f"
  by (simp add: parse_name_def extname_def split: option.split)

lemma PRESETS_have_extension:
  "map_of PRESETS n = Some p \<Longrightarrow> \<exists>ext. outputExtension p = Some ext"
  by (auto simp: PRESETS_def split: if_splits)

text \<open>
  Claim C8. For any preset \<open>p\<close> of the registry and any candidate input file \<open>f\<close>, the file
  name is its stem (the \<^verbatim>\<open>name\<close> of \<^verbatim>\<open>path.parse\<close>) followed by its non-empty extension, and
  the output file name, under which the engine is asked to write into the output
  directory, is that stem followed by the preset's output extension: the file's own
  extension does not occur in it.
\<close>

theorem output_name_is_stem_plus_preset_extension:
  assumes "map_of PRESETS n = Some p" and "is_video f"
  shows "f = parse_name f @ extname f \<and> extname f \<noteq> []
         \<and> (\<exists>ext. outputExtension p = Some ext
                \<and> outputName p f = parse_name f @ ext
                \<and> Ffmpeg (inputPath E f) (cli p) (path_join (outputDir E) (parse_name f @ ext))
                    \<in> set (calls (snd (snd (convert_one E p f sourceStats acc)))))"
proof -
  from assms(1) obtain ext where ext: "outputExtension p = Some ext"
    using PRESETS_have_extension by blast
  have ne: "extname f \<noteq> []"
    using assms(2) by (auto simp: is_video_def toLowerCase_def VIDEO_EXTENSIONS_def)
  have call: "Ffmpeg (inputPath E f) (cli p) (outputPath E p f)
               \<in> set (calls (snd (snd (convert_one E p f sourceStats acc))))"
    by (cases acc)
       (simp add: convert_one_def Let_def getFileStats_def split: option.split sum.split)
  show ?thesis
    using ne ext call name_ext_split [of f]
    by (simp add: outputName_def outputPath_def)
qed

lemma clip_is_video: "is_video ''clip.MOV''"
  by code_simp

lemma clip_name: "parse_name ''clip.MOV'' = ''clip''"
  by code_simp

text \<open>
  Claim C8 for the preset \<^verbatim>\<open>extract_audio\<close> and the file \<^verbatim>\<open>clip.MOV\<close>: the output is
  \<^verbatim>\<open>clip.mp3\<close>.
\<close>

theorem output_name_is_stem_plus_preset_extension_witness:
  "map_of PRESETS ''extract_audio'' = Some extract_audio
   \<and> is_video ''clip.MOV''
   \<and> outputName extract_audio ''clip.MOV'' = ''clip.mp3''
   \<and> Ffmpeg ''/app/input/clip.MOV'' (Some [''-vn'', ''-c:a'', ''libmp3lame'', ''-q:a'', ''2''])
        ''/app/output/clip.mp3''
      \<in> set (calls (snd (snd (convert_one demo_env extract_audio ''clip.MOV''
                 (fileStats (demo_metadata 1536)) (0, 0, initial)))))"
proof -
  have "outputName extract_audio ''clip.MOV'' = ''clip.mp3''
   \<and> Ffmpeg ''/app/input/clip.MOV'' (Some [''-vn'', ''-c:a'', ''libmp3lame'', ''-q:a'', ''2''])
        ''/app/output/clip.mp3''
      \<in> set (calls (snd (snd (convert_one demo_env extract_audio ''clip.MOV''
                 (fileStats (demo_metadata 1536)) (0, 0, initial)))))"
    using output_name_is_stem_plus_preset_extension [OF demo_map_of clip_is_video,
            of demo_env "fileStats (demo_metadata 1536)" "(0, 0, initial)"]
    by (auto simp: clip_name demo_inputPath demo_dir_names path_join_def extract_audio_def)
  then show ?thesis
    by (intro conjI demo_map_of clip_is_video) simp_all
qed

end
